theory Spec2Isabelle
  imports Complex_Main
begin

section \<open>Data model\<close>

text \<open>
  Enumerations of \<^verbatim>\<open>app/models\<close>. Python keeps one \<^verbatim>\<open>PENDING\<close> member in several
  enums; the constructors carry the enum as a prefix to keep them apart.
\<close>

datatype RiskLevel = LOW | MEDIUM | HIGH | CRITICAL

datatype AuditAction = Audit_APPROVE | Audit_REJECT | Audit_ESCALATE | Audit_PENDING

datatype RefundStatus =
  Refund_PENDING | Refund_APPROVED | Refund_REJECTED | Refund_COMPLETED | Refund_CANCELLED

datatype RefundReason = QUALITY_ISSUE | SIZE_NOT_FIT | NOT_AS_DESCRIBED | CHANGED_MIND | OTHER

datatype OrderStatus =
  Order_PENDING | Order_PAID | Order_SHIPPED | Order_DELIVERED | Order_CANCELLED

datatype MessageType = TEXT | AUDIT_CARD | ORDER_CARD | REFUND_CARD | SYSTEM

datatype MessageStatus = Msg_PENDING | Msg_SENT | Msg_READ | Msg_FAILED

text \<open>
  A Python \<^verbatim>\<open>str\<close> whose content matters character by character (item names, the
  user's question) is the list of its code points. Identifiers and request fields that
  are plain ASCII (\<^verbatim>\<open>thread_id\<close>, \<^verbatim>\<open>action\<close>, \<^verbatim>\<open>admin_comment\<close>) are
  \<^typ>\<open>string\<close>. Amounts are Python floats read from a \<^verbatim>\<open>Numeric(10, 2)\<close> column;
  they are compared only, and are modelled by the real numbers they denote. Timestamps
  are seconds on the UTC clock.
\<close>

type_synonym pystr = "nat list"

record Settings =
  HIGH_RISK_REFUND_AMOUNT :: real
  MEDIUM_RISK_REFUND_AMOUNT :: real

text \<open>The defaults of \<^verbatim>\<open>app/core/config.py\<close>, lines 80 and 81.\<close>

definition settings :: Settings where
  "settings = \<lparr>HIGH_RISK_REFUND_AMOUNT = 2000, MEDIUM_RISK_REFUND_AMOUNT = 500\<rparr>"

record Item =
  item_name :: "pystr option"

record Order =
  o_id :: int
  o_user_id :: int
  o_status :: OrderStatus
  o_total_amount :: real
  o_items :: "Item list"
  o_created_at :: int

record RefundApplication =
  ra_id :: int
  ra_order_id :: int
  ra_user_id :: int
  ra_status :: RefundStatus
  ra_reason_category :: "RefundReason option"
  ra_reason_detail :: pystr
  ra_refund_amount :: real
  ra_admin_note :: "string option"
  ra_reviewed_by :: "int option"
  ra_reviewed_at :: "int option"
  ra_created_at :: int
  ra_updated_at :: int

text \<open>
  The trigger reason is an f-string built from the amount and the threshold it reached
  (\<^verbatim>\<open>nodes.py\<close>, lines 447 and 451); the model keeps the two numbers.
\<close>

datatype trigger_reason =
  HighAmountReason real real
| MediumAmountReason real real

record refund_data =
  rd_refund_id :: int
  rd_order_id :: int
  rd_amount :: real
  rd_reason :: pystr

record context_snapshot =
  cs_question :: pystr
  cs_refund_data :: refund_data

record AuditLog =
  al_id :: int
  al_thread_id :: string
  al_order_id :: "int option"
  al_refund_application_id :: "int option"
  al_user_id :: int
  al_trigger_reason :: trigger_reason
  al_risk_level :: RiskLevel
  al_action :: AuditAction
  al_admin_id :: "int option"
  al_admin_comment :: "string option"
  al_context_snapshot :: context_snapshot
  al_created_at :: int
  al_reviewed_at :: "int option"
  al_updated_at :: int

text \<open>
  The text shown for a decision (\<^verbatim>\<open>admin.py\<close>, line 171): a fixed sentence on
  approval, a sentence ending in the administrator's comment otherwise.
\<close>

datatype status_message =
  ApprovedStatusMessage
| RejectedStatusMessage "string option"

datatype card_content =
  AuditResultCard string status_message "string option" int
| AdminNotificationCard int RiskLevel

record MessageCard =
  mc_thread_id :: string
  mc_message_type :: MessageType
  mc_status :: MessageStatus
  mc_content :: card_content
  mc_sender_type :: string
  mc_sender_id :: "int option"
  mc_receiver_id :: "int option"
  mc_created_at :: int

text \<open>
  The three Celery tasks of \<^verbatim>\<open>app/tasks/refund_tasks.py\<close> with the keyword
  arguments of their \<^verbatim>\<open>delay\<close> calls. The SMS text of \<^verbatim>\<open>admin.py\<close>, line 159, is
  determined by the refund amount.
\<close>

datatype payment_method = OriginalPaymentMethod

datatype sms_text = RefundApprovedSms real

datatype job =
  ProcessRefundPayment int real payment_method
| SendRefundSms int string sms_text
| NotifyAdminAudit int

text \<open>
  What \<^verbatim>\<open>ConnectionManager.notify_status_change\<close> hands to the sockets: a
  \<^verbatim>\<open>status_change\<close> message for the subscribers of a thread, and a
  \<^verbatim>\<open>new_audit_task\<close> message for the administrators.
\<close>

datatype event_data =
  DecisionData status_message "string option"
| WaitingData RiskLevel trigger_reason int real

datatype ws_message =
  StatusChange string string event_data
| NewAuditTask string event_data

text \<open>
  The state the handlers and workers share: the four tables, the broker queue that
  \<^verbatim>\<open>delay\<close> writes to, and the messages given to the connection manager.
\<close>

record sys =
  orders :: "Order list"
  refund_applications :: "RefundApplication list"
  audit_logs :: "AuditLog list"
  message_cards :: "MessageCard list"
  jobs :: "job list"
  published :: "ws_message list"

section \<open>Storage and messaging primitives\<close>

text \<open>
  A primary key given by the database on insert: one more than the largest key of the
  table (1 for the first row).
\<close>

definition fresh_id :: "int list \<Rightarrow> int" where
  "fresh_id ids = fold max ids 0 + 1"

definition get_audit_log :: "int \<Rightarrow> sys \<Rightarrow> AuditLog option" where
  "get_audit_log i s = find (\<lambda>a. al_id a = i) (audit_logs s)"

definition get_refund :: "int \<Rightarrow> sys \<Rightarrow> RefundApplication option" where
  "get_refund i s = find (\<lambda>r. ra_id r = i) (refund_applications s)"

definition put_audit_log :: "AuditLog \<Rightarrow> sys \<Rightarrow> sys" where
  "put_audit_log a s =
     s\<lparr>audit_logs := map (\<lambda>b. if al_id b = al_id a then a else b) (audit_logs s)\<rparr>"

definition put_refund :: "RefundApplication \<Rightarrow> sys \<Rightarrow> sys" where
  "put_refund r s =
     s\<lparr>refund_applications :=
         map (\<lambda>q. if ra_id q = ra_id r then r else q) (refund_applications s)\<rparr>"

text \<open>
  \<^verbatim>\<open>task.delay(...)\<close> publishes one message to the broker at every call; the
  repository passes no task id and no key with it.
\<close>

definition delay :: "job \<Rightarrow> sys \<Rightarrow> sys" where
  "delay j s = s\<lparr>jobs := jobs s @ [j]\<rparr>"

text \<open>
  \<^verbatim>\<open>manager.notify_status_change\<close> (\<^verbatim>\<open>websocket/manager.py\<close>, lines 104 to 131).
\<close>

definition notify_status_change :: "string \<Rightarrow> string \<Rightarrow> event_data \<Rightarrow> sys \<Rightarrow> sys" where
  "notify_status_change thread_id status d s =
     (let s1 = s\<lparr>published := published s @ [StatusChange thread_id status d]\<rparr>
      in if status = ''WAITING_ADMIN''
         then s1\<lparr>published := published s1 @ [NewAuditTask thread_id d]\<rparr>
         else s1)"

section \<open>Risk classification and the eligibility node\<close>

text \<open>
  The \<^verbatim>\<open>if\<close>/\<^verbatim>\<open>elif\<close>/\<^verbatim>\<open>else\<close> chain of \<^verbatim>\<open>check_refund_eligibility\<close>
  (\<^verbatim>\<open>nodes.py\<close>, lines 445 to 455), which picks the risk level from the amount.
\<close>

definition classify :: "Settings \<Rightarrow> real \<Rightarrow> RiskLevel" where
  "classify cfg refund_amount =
     (if refund_amount \<ge> HIGH_RISK_REFUND_AMOUNT cfg then HIGH
      else if refund_amount \<ge> MEDIUM_RISK_REFUND_AMOUNT cfg then MEDIUM
      else LOW)"


record AgentState =
  st_question :: pystr
  st_user_id :: int
  st_thread_id :: string
  st_refund_data :: "refund_data option"
  st_answer :: pystr

text \<open>
  The answers of the node are f-strings over the values kept here; \<open>StateAnswer\<close> is
  \<^verbatim>\<open>state.get("answer", "")\<close> passed through.
\<close>

datatype answer_text =
  StateAnswer pystr
| AutoApprovedAnswer int real
| NeedsAuditAnswer int real RiskLevel trigger_reason

record node_result =
  nr_audit_required :: bool
  nr_audit_log_id :: "int option"
  nr_answer :: answer_text

text \<open>
  The low-risk branch (\<^verbatim>\<open>nodes.py\<close>, lines 453 to 469): the refund application is
  fetched by its key and, when it exists, set to \<^verbatim>\<open>APPROVED\<close>.
\<close>

definition auto_approve :: "int \<Rightarrow> refund_data \<Rightarrow> sys \<Rightarrow> node_result \<times> sys" where
  "auto_approve now rd s =
     (let s1 = (case get_refund (rd_refund_id rd) s of
                  None \<Rightarrow> s
                | Some refund \<Rightarrow>
                    put_refund (refund\<lparr>ra_status := Refund_APPROVED,
                                       ra_reviewed_at := Some now,
                                       ra_updated_at := now\<rparr>) s)
      in (\<lparr>nr_audit_required = False, nr_audit_log_id = None,
           nr_answer = AutoApprovedAnswer (rd_refund_id rd) (rd_amount rd)\<rparr>, s1))"

text \<open>
  The audit branch (\<^verbatim>\<open>nodes.py\<close>, lines 477 to 530): a \<^verbatim>\<open>PENDING\<close> audit log is
  inserted, the administrators' task is sent to the broker, and
  \<^verbatim>\<open>WAITING_ADMIN\<close> is pushed to the thread. The two \<^verbatim>\<open>try\<close> blocks only print
  when the broker or the socket layer raises; the model takes both calls to succeed.
\<close>

definition open_audit ::
  "int \<Rightarrow> AgentState \<Rightarrow> refund_data \<Rightarrow> RiskLevel \<Rightarrow> trigger_reason \<Rightarrow> sys \<Rightarrow> node_result \<times> sys" where
  "open_audit now st rd risk_level reason s =
     (let audit_log_id = fresh_id (map al_id (audit_logs s));
          audit_log = \<lparr>al_id = audit_log_id,
                       al_thread_id = st_thread_id st,
                       al_order_id = Some (rd_order_id rd),
                       al_refund_application_id = Some (rd_refund_id rd),
                       al_user_id = st_user_id st,
                       al_trigger_reason = reason,
                       al_risk_level = risk_level,
                       al_action = Audit_PENDING,
                       al_admin_id = None,
                       al_admin_comment = None,
                       al_context_snapshot =
                         \<lparr>cs_question = st_question st, cs_refund_data = rd\<rparr>,
                       al_created_at = now,
                       al_reviewed_at = None,
                       al_updated_at = now\<rparr>;
          s1 = s\<lparr>audit_logs := audit_logs s @ [audit_log]\<rparr>;
          s2 = delay (NotifyAdminAudit audit_log_id) s1;
          s3 = notify_status_change (st_thread_id st) ''WAITING_ADMIN''
                 (WaitingData risk_level reason audit_log_id (rd_amount rd)) s2
      in (\<lparr>nr_audit_required = True, nr_audit_log_id = Some audit_log_id,
           nr_answer = NeedsAuditAnswer (rd_refund_id rd) (rd_amount rd) risk_level reason\<rparr>,
          s3))"

text \<open>
  \<^verbatim>\<open>check_refund_eligibility\<close> (\<^verbatim>\<open>nodes.py\<close>, lines 421 to 530). The
  \<^verbatim>\<open>refund_data\<close> dictionary is the one \<^verbatim>\<open>handle_refund\<close> builds, with every key
  present; \<open>None\<close> stands for a state without it. In the two audit branches
  \<^verbatim>\<open>needs_audit\<close> is \<^verbatim>\<open>True\<close>, so the test of line 471 never returns.
\<close>

definition check_refund_eligibility ::
  "Settings \<Rightarrow> int \<Rightarrow> AgentState \<Rightarrow> sys \<Rightarrow> node_result \<times> sys" where
  "check_refund_eligibility cfg now st s =
     (case st_refund_data st of
        None \<Rightarrow>
          (\<lparr>nr_audit_required = False, nr_audit_log_id = None,
            nr_answer = StateAnswer (st_answer st)\<rparr>, s)
      | Some rd \<Rightarrow>
          if rd_amount rd \<ge> HIGH_RISK_REFUND_AMOUNT cfg then
            open_audit now st rd HIGH
              (HighAmountReason (rd_amount rd) (HIGH_RISK_REFUND_AMOUNT cfg)) s
          else if rd_amount rd \<ge> MEDIUM_RISK_REFUND_AMOUNT cfg then
            open_audit now st rd MEDIUM
              (MediumAmountReason (rd_amount rd) (MEDIUM_RISK_REFUND_AMOUNT cfg)) s
          else auto_approve now rd s)"

section \<open>The administrator's decision\<close>

datatype http_error = HTTP_404_NOT_FOUND | HTTP_400_BAD_REQUEST

record AdminDecisionRequest =
  req_action :: string
  req_admin_comment :: "string option"

record AdminDecisionResponse =
  resp_success :: bool
  resp_audit_log_id :: int
  resp_action :: string

text \<open>
  Step 3 of \<^verbatim>\<open>admin_decision\<close> (\<^verbatim>\<open>admin.py\<close>, lines 133 to 168). Python's
  \<^verbatim>\<open>if audit_log.refund_application_id\<close> is false for \<^verbatim>\<open>None\<close> and for 0. On
  approval the payment and SMS tasks are sent before the refund row is written back.
\<close>

definition review_refund ::
  "AuditLog \<Rightarrow> AuditAction \<Rightarrow> AdminDecisionRequest \<Rightarrow> int \<Rightarrow> int \<Rightarrow> sys \<Rightarrow> sys" where
  "review_refund audit_log action_enum request current_admin_id now s =
     (case al_refund_application_id audit_log of
        None \<Rightarrow> s
      | Some rid \<Rightarrow>
          if rid = 0 then s
          else (case get_refund rid s of
                  None \<Rightarrow> s
                | Some refund \<Rightarrow>
                    if action_enum = Audit_APPROVE then
                      (let s1 = delay (ProcessRefundPayment (ra_id refund)
                                         (ra_refund_amount refund) OriginalPaymentMethod) s;
                           s2 = delay (SendRefundSms (ra_id refund) ''138****1234''
                                         (RefundApprovedSms (ra_refund_amount refund))) s1
                       in put_refund (refund\<lparr>ra_status := Refund_APPROVED,
                                             ra_admin_note := req_admin_comment request,
                                             ra_reviewed_by := Some current_admin_id,
                                             ra_reviewed_at := Some now,
                                             ra_updated_at := now\<rparr>) s2)
                    else
                      put_refund (refund\<lparr>ra_status := Refund_REJECTED,
                                          ra_admin_note := req_admin_comment request,
                                          ra_reviewed_by := Some current_admin_id,
                                          ra_reviewed_at := Some now,
                                          ra_updated_at := now\<rparr>) s))"

text \<open>
  \<^verbatim>\<open>admin_decision\<close> (\<^verbatim>\<open>admin.py\<close>, lines 89 to 207). The two
  \<^verbatim>\<open>HTTPException\<close>s are raised before anything is written, so the state comes back
  as it was. Any action other than the string \<^verbatim>\<open>APPROVE\<close> is taken as a rejection
  (line 125), while the pushed status is the request's string itself (line 195).
\<close>

definition admin_decision ::
  "int \<Rightarrow> AdminDecisionRequest \<Rightarrow> int \<Rightarrow> int \<Rightarrow> sys
     \<Rightarrow> (http_error + AdminDecisionResponse) \<times> sys" where
  "admin_decision audit_log_id request current_admin_id now s =
     (case get_audit_log audit_log_id s of
        None \<Rightarrow> (Inl HTTP_404_NOT_FOUND, s)
      | Some audit_log \<Rightarrow>
          if al_action audit_log \<noteq> Audit_PENDING then (Inl HTTP_400_BAD_REQUEST, s)
          else
            (let action_enum =
                   (if req_action request = ''APPROVE'' then Audit_APPROVE else Audit_REJECT);
                 s1 = put_audit_log
                        (audit_log\<lparr>al_action := action_enum,
                                    al_admin_id := Some current_admin_id,
                                    al_admin_comment := req_admin_comment request,
                                    al_reviewed_at := Some now,
                                    al_updated_at := now\<rparr>) s;
                 s2 = review_refund audit_log action_enum request current_admin_id now s1;
                 status_message =
                   (if action_enum = Audit_APPROVE then ApprovedStatusMessage
                    else RejectedStatusMessage (req_admin_comment request));
                 message_card =
                   \<lparr>mc_thread_id = al_thread_id audit_log,
                    mc_message_type = AUDIT_CARD,
                    mc_status = Msg_SENT,
                    mc_content = AuditResultCard (req_action request) status_message
                                   (req_admin_comment request) now,
                    mc_sender_type = ''admin'',
                    mc_sender_id = Some current_admin_id,
                    mc_receiver_id = Some (al_user_id audit_log),
                    mc_created_at = now\<rparr>;
                 s3 = s2\<lparr>message_cards := message_cards s2 @ [message_card]\<rparr>;
                 s4 = notify_status_change (al_thread_id audit_log) (req_action request)
                        (DecisionData status_message (req_admin_comment request)) s3
             in (Inr \<lparr>resp_success = True, resp_audit_log_id = audit_log_id,
                      resp_action = req_action request\<rparr>, s4)))"


section \<open>Background tasks\<close>

text \<open>
  A task returns its result dictionary, or raises \<^verbatim>\<open>self.retry(exc=exc)\<close>. Celery
  then publishes the same task again while the retry count is below
  \<^verbatim>\<open>max_retries\<close>, and gives the task up with the original exception otherwise.
\<close>

datatype task_exception = RefundNotFound int | AuditLogNotFound int

datatype task_error = Retry task_exception | MaxRetriesExceeded task_exception

definition retry :: "nat \<Rightarrow> nat \<Rightarrow> job \<Rightarrow> task_exception \<Rightarrow> sys \<Rightarrow> task_error \<times> sys" where
  "retry max_retries retries j exc s =
     (if retries < max_retries then (Retry exc, delay j s)
      else (MaxRetriesExceeded exc, s))"

record payment_result =
  pr_refund_id :: int
  pr_amount :: real
  pr_completed_at :: int

record sms_result =
  sr_refund_id :: int
  sr_phone :: string
  sr_sent_at :: int

record notify_result =
  nf_audit_log_id :: int
  nf_notified_at :: int

text \<open>
  \<^verbatim>\<open>send_refund_sms\<close> (\<^verbatim>\<open>refund_tasks.py\<close>, lines 27 to 62): the gateway is a
  print and a sleep, no table is read or written.
\<close>

definition send_refund_sms ::
  "int \<Rightarrow> string \<Rightarrow> sms_text \<Rightarrow> int \<Rightarrow> sys \<Rightarrow> (task_error + sms_result) \<times> sys" where
  "send_refund_sms refund_id phone message now s =
     (Inr \<lparr>sr_refund_id = refund_id, sr_phone = phone, sr_sent_at = now\<rparr>, s)"

text \<open>
  \<^verbatim>\<open>process_refund_payment\<close> (\<^verbatim>\<open>refund_tasks.py\<close>, lines 65 to 121), with
  \<^verbatim>\<open>max_retries=3\<close>. A missing refund application raises \<^verbatim>\<open>ValueError\<close> before
  anything is written; otherwise the row is set to \<^verbatim>\<open>COMPLETED\<close> and committed.
\<close>

definition process_refund_payment ::
  "nat \<Rightarrow> int \<Rightarrow> real \<Rightarrow> payment_method \<Rightarrow> int \<Rightarrow> sys
     \<Rightarrow> (task_error + payment_result) \<times> sys" where
  "process_refund_payment retries refund_id amount method now s =
     (case get_refund refund_id s of
        None \<Rightarrow>
          (let (e, s1) = retry 3 retries (ProcessRefundPayment refund_id amount method)
                           (RefundNotFound refund_id) s
           in (Inl e, s1))
      | Some refund \<Rightarrow>
          (Inr \<lparr>pr_refund_id = refund_id, pr_amount = amount, pr_completed_at = now\<rparr>,
           put_refund (refund\<lparr>ra_status := Refund_COMPLETED, ra_updated_at := now\<rparr>) s))"

text \<open>
  \<^verbatim>\<open>notify_admin_audit\<close> (\<^verbatim>\<open>refund_tasks.py\<close>, lines 124 to 181), with
  \<^verbatim>\<open>max_retries=2\<close>: a system message card for the administrators.
\<close>

definition notify_admin_audit ::
  "nat \<Rightarrow> int \<Rightarrow> int \<Rightarrow> sys \<Rightarrow> (task_error + notify_result) \<times> sys" where
  "notify_admin_audit retries audit_log_id now s =
     (case get_audit_log audit_log_id s of
        None \<Rightarrow>
          (let (e, s1) = retry 2 retries (NotifyAdminAudit audit_log_id)
                           (AuditLogNotFound audit_log_id) s
           in (Inl e, s1))
      | Some audit_log \<Rightarrow>
          (Inr \<lparr>nf_audit_log_id = audit_log_id, nf_notified_at = now\<rparr>,
           s\<lparr>message_cards := message_cards s @
                [\<lparr>mc_thread_id = al_thread_id audit_log,
                  mc_message_type = SYSTEM,
                  mc_status = Msg_SENT,
                  mc_content = AdminNotificationCard audit_log_id (al_risk_level audit_log),
                  mc_sender_type = ''system'',
                  mc_sender_id = None,
                  mc_receiver_id = None,
                  mc_created_at = now\<rparr>]\<rparr>))"

text \<open>A worker takes a job from the queue and runs the task it names.\<close>

fun run_job :: "nat \<Rightarrow> int \<Rightarrow> job \<Rightarrow> sys \<Rightarrow> sys" where
  "run_job retries now (ProcessRefundPayment refund_id amount method) s =
     snd (process_refund_payment retries refund_id amount method now s)"
| "run_job retries now (SendRefundSms refund_id phone message) s =
     snd (send_refund_sms refund_id phone message now s)"
| "run_job retries now (NotifyAdminAudit audit_log_id) s =
     snd (notify_admin_audit retries audit_log_id now s)"

section \<open>The status query\<close>

text \<open>
  \<^verbatim>\<open>ORDER BY created_at DESC LIMIT 1\<close>: a row with the greatest timestamp. Among rows
  of equal timestamp the database is free to pick; the model takes the one stored first.
\<close>

fun latest_by :: "('a \<Rightarrow> int) \<Rightarrow> 'a list \<Rightarrow> 'a option" where
  "latest_by f [] = None"
| "latest_by f (x # xs) =
     (case latest_by f xs of
        None \<Rightarrow> Some x
      | Some y \<Rightarrow> if f x < f y then Some y else Some x)"

datatype status_data =
  WaitingStatusData int RiskLevel trigger_reason
| ReviewedStatusData "string option" "int option"
| NoStatusData

record StatusResponse =
  rs_thread_id :: string
  rs_status :: string
  rs_data :: status_data
  rs_timestamp :: "int option"

text \<open>
  \<^verbatim>\<open>get_thread_status\<close> (\<^verbatim>\<open>status.py\<close>, lines 27 to 101). The session is only read
  from; the state is returned beside the response to say so.
\<close>

definition get_thread_status :: "string \<Rightarrow> int \<Rightarrow> sys \<Rightarrow> StatusResponse \<times> sys" where
  "get_thread_status thread_id current_user_id s =
     (let latest_audit =
            latest_by al_created_at
              (filter (\<lambda>a. al_thread_id a = thread_id \<and> al_user_id a = current_user_id)
                 (audit_logs s));
          latest_message =
            latest_by mc_created_at
              (filter (\<lambda>m. mc_thread_id m = thread_id) (message_cards s));
          processing =
            \<lparr>rs_thread_id = thread_id, rs_status = ''PROCESSING'', rs_data = NoStatusData,
             rs_timestamp = map_option mc_created_at latest_message\<rparr>
      in ((case latest_audit of
            None \<Rightarrow> processing
          | Some a \<Rightarrow>
              if al_action a = Audit_PENDING then
                \<lparr>rs_thread_id = thread_id, rs_status = ''WAITING_ADMIN'',
                 rs_data = WaitingStatusData (al_id a) (al_risk_level a) (al_trigger_reason a),
                 rs_timestamp = Some (al_created_at a)\<rparr>
              else if al_action a = Audit_APPROVE then
                \<lparr>rs_thread_id = thread_id, rs_status = ''APPROVED'',
                 rs_data = ReviewedStatusData (al_admin_comment a) (al_reviewed_at a),
                 rs_timestamp = Some (al_updated_at a)\<rparr>
              else if al_action a = Audit_REJECT then
                \<lparr>rs_thread_id = thread_id, rs_status = ''REJECTED'',
                 rs_data = ReviewedStatusData (al_admin_comment a) (al_reviewed_at a),
                 rs_timestamp = Some (al_updated_at a)\<rparr>
              else processing),
          s))"

section \<open>The refund service\<close>

text \<open>\<^verbatim>\<open>RefundRules\<close> (\<^verbatim>\<open>refund_service.py\<close>, lines 15 to 32).\<close>

definition REFUND_DEADLINE_DAYS :: int where
  "REFUND_DEADLINE_DAYS = 7"

definition ALLOWED_ORDER_STATUSES :: "OrderStatus list" where
  "ALLOWED_ORDER_STATUSES = [Order_DELIVERED, Order_SHIPPED]"

text \<open>The three category words, as code points (two, two and four Chinese characters).\<close>

definition NON_REFUNDABLE_CATEGORIES :: "pystr list" where
  "NON_REFUNDABLE_CATEGORIES =
     [[0x5185, 0x8863], [0x98DF, 0x54C1], [0x5B9A, 0x5236, 0x5546, 0x54C1]]"

text \<open>Python's \<^verbatim>\<open>sub in s\<close> on strings.\<close>

fun starts_with :: "'a list \<Rightarrow> 'a list \<Rightarrow> bool" where
  "starts_with [] s = True"
| "starts_with (c # cs) [] = False"
| "starts_with (c # cs) (d # ds) = (c = d \<and> starts_with cs ds)"

fun contains :: "'a list \<Rightarrow> 'a list \<Rightarrow> bool" where
  "contains sub [] = (sub = [])"
| "contains sub (d # ds) = (starts_with sub (d # ds) \<or> contains sub ds)"

datatype eligibility_msg =
  OrderStatusNotAllowed OrderStatus
| RefundAlreadyExists RefundStatus
| DeadlineExceeded int
| WithinDeadline int
| NonRefundableItem pystr pystr
| CategoryOk
| Eligible

definition check_existing_refund :: "int \<Rightarrow> sys \<Rightarrow> RefundApplication option" where
  "check_existing_refund order_id s =
     find (\<lambda>r. ra_order_id r = order_id \<and> ra_status r \<in> set [Refund_PENDING, Refund_APPROVED])
       (refund_applications s)"

text \<open>
  \<^verbatim>\<open>(now - order.created_at).days\<close>: a \<^verbatim>\<open>timedelta\<close> keeps its days rounded towards
  minus infinity, as \<open>div\<close> on \<^typ>\<open>int\<close> does.
\<close>

definition check_time_limit :: "int \<Rightarrow> Order \<Rightarrow> bool \<times> eligibility_msg" where
  "check_time_limit now order =
     (let days_passed = (now - o_created_at order) div 86400
      in if days_passed > REFUND_DEADLINE_DAYS then (False, DeadlineExceeded days_passed)
         else (True, WithinDeadline days_passed))"

fun check_category_items :: "Item list \<Rightarrow> bool \<times> eligibility_msg" where
  "check_category_items [] = (True, CategoryOk)"
| "check_category_items (item # items) =
     (let name = (case item_name item of None \<Rightarrow> [] | Some n \<Rightarrow> n)
      in case find (\<lambda>non_refundable. contains non_refundable name) NON_REFUNDABLE_CATEGORIES of
           Some non_refundable \<Rightarrow> (False, NonRefundableItem name non_refundable)
         | None \<Rightarrow> check_category_items items)"

definition check_category :: "Order \<Rightarrow> bool \<times> eligibility_msg" where
  "check_category order = check_category_items (o_items order)"

text \<open>
  \<^verbatim>\<open>RefundEligibilityChecker.check_eligibility\<close> (\<^verbatim>\<open>refund_service.py\<close>, lines 43
  to 77): four rules in order, the first that fails gives the reason.
\<close>

definition check_eligibility :: "Order \<Rightarrow> int \<Rightarrow> sys \<Rightarrow> bool \<times> eligibility_msg" where
  "check_eligibility order now s =
     (if o_status order \<notin> set ALLOWED_ORDER_STATUSES
      then (False, OrderStatusNotAllowed (o_status order))
      else case check_existing_refund (o_id order) s of
             Some existing_refund \<Rightarrow> (False, RefundAlreadyExists (ra_status existing_refund))
           | None \<Rightarrow>
               (case check_time_limit now order of
                  (False, time_msg) \<Rightarrow> (False, time_msg)
                | (True, _) \<Rightarrow>
                    (case check_category order of
                       (False, category_msg) \<Rightarrow> (False, category_msg)
                     | (True, _) \<Rightarrow> (True, Eligible))))"

datatype create_msg =
  OrderNotFoundOrNoAccess
| ApplicationRejected eligibility_msg
| ApplicationSubmitted int
| SubmitFailed

text \<open>
  \<^verbatim>\<open>RefundApplicationService.create_refund_application\<close> (\<^verbatim>\<open>refund_service.py\<close>,
  lines 136 to 198). \<open>commit_ok\<close> says whether \<^verbatim>\<open>session.commit()\<close> goes through;
  when it raises, the session is rolled back and nothing is stored.
\<close>

definition create_refund_application ::
  "int \<Rightarrow> int \<Rightarrow> pystr \<Rightarrow> RefundReason option \<Rightarrow> int \<Rightarrow> bool \<Rightarrow> sys
     \<Rightarrow> (bool \<times> create_msg \<times> RefundApplication option) \<times> sys" where
  "create_refund_application order_id user_id reason_detail reason_category now commit_ok s =
     (case find (\<lambda>row. o_id row = order_id \<and> o_user_id row = user_id) (orders s) of
        None \<Rightarrow> ((False, OrderNotFoundOrNoAccess, None), s)
      | Some order \<Rightarrow>
          (case check_eligibility order now s of
             (False, eligibility_msg) \<Rightarrow> ((False, ApplicationRejected eligibility_msg, None), s)
           | (True, _) \<Rightarrow>
               (let refund_app =
                      \<lparr>ra_id = fresh_id (map ra_id (refund_applications s)),
                       ra_order_id = order_id,
                       ra_user_id = user_id,
                       ra_status = Refund_PENDING,
                       ra_reason_category = reason_category,
                       ra_reason_detail = reason_detail,
                       ra_refund_amount = o_total_amount order,
                       ra_admin_note = None,
                       ra_reviewed_by = None,
                       ra_reviewed_at = None,
                       ra_created_at = now,
                       ra_updated_at = now\<rparr>
                in if commit_ok
                   then ((True, ApplicationSubmitted (ra_id refund_app), Some refund_app),
                         s\<lparr>refund_applications := refund_applications s @ [refund_app]\<rparr>)
                   else ((False, SubmitFailed, None), s))))"


section \<open>A small shop used for the concrete checks\<close>

text \<open>
  Customer 7 owns two delivered orders, of 100 and of 2500, and has a refund application
  open on each, as \<^verbatim>\<open>handle_refund\<close> leaves them. Administrator 9 reviews.
\<close>

definition demo_order_small :: Order where
  "demo_order_small =
     \<lparr>o_id = 1, o_user_id = 7, o_status = Order_DELIVERED, o_total_amount = 100,
      o_items = [\<lparr>item_name = Some [0x54, 0x6064]\<rparr>], o_created_at = 0\<rparr>"

definition demo_order_large :: Order where
  "demo_order_large =
     \<lparr>o_id = 2, o_user_id = 7, o_status = Order_DELIVERED, o_total_amount = 2500,
      o_items = [\<lparr>item_name = Some [0x76F8, 0x673A]\<rparr>], o_created_at = 0\<rparr>"

definition demo_refund_small :: RefundApplication where
  "demo_refund_small =
     \<lparr>ra_id = 1, ra_order_id = 1, ra_user_id = 7, ra_status = Refund_PENDING,
      ra_reason_category = Some OTHER, ra_reason_detail = [], ra_refund_amount = 100,
      ra_admin_note = None, ra_reviewed_by = None, ra_reviewed_at = None,
      ra_created_at = 50, ra_updated_at = 50\<rparr>"

definition demo_refund_large :: RefundApplication where
  "demo_refund_large =
     \<lparr>ra_id = 2, ra_order_id = 2, ra_user_id = 7, ra_status = Refund_PENDING,
      ra_reason_category = Some QUALITY_ISSUE, ra_reason_detail = [], ra_refund_amount = 2500,
      ra_admin_note = None, ra_reviewed_by = None, ra_reviewed_at = None,
      ra_created_at = 50, ra_updated_at = 50\<rparr>"

definition demo_shop :: sys where
  "demo_shop =
     \<lparr>orders = [demo_order_small, demo_order_large],
      refund_applications = [demo_refund_small, demo_refund_large],
      audit_logs = [], message_cards = [], jobs = [], published = []\<rparr>"

definition demo_request_small :: AgentState where
  "demo_request_small =
     \<lparr>st_question = [], st_user_id = 7, st_thread_id = ''thread-a'',
      st_refund_data = Some \<lparr>rd_refund_id = 1, rd_order_id = 1, rd_amount = 100, rd_reason = []\<rparr>,
      st_answer = []\<rparr>"

definition demo_request_large :: AgentState where
  "demo_request_large =
     \<lparr>st_question = [], st_user_id = 7, st_thread_id = ''thread-b'',
      st_refund_data = Some \<lparr>rd_refund_id = 2, rd_order_id = 2, rd_amount = 2500, rd_reason = []\<rparr>,
      st_answer = []\<rparr>"

text \<open>The shop after the large request has gone through the eligibility node.\<close>

definition demo_pending :: sys where
  "demo_pending = snd (check_refund_eligibility settings 60 demo_request_large demo_shop)"

definition demo_approve :: AdminDecisionRequest where
  "demo_approve = \<lparr>req_action = ''APPROVE'', req_admin_comment = Some ''ok''\<rparr>"

definition demo_reject :: AdminDecisionRequest where
  "demo_reject = \<lparr>req_action = ''REJECT'', req_admin_comment = Some ''quality unverified''\<rparr>"

text \<open>The shop after administrator 9 has approved audit log 1.\<close>

definition demo_decided :: sys where
  "demo_decided = snd (admin_decision 1 demo_approve 9 100 demo_pending)"

text \<open>A run of later decisions on one audit log, each with its request, administrator and time.\<close>

definition decide_again :: "int \<Rightarrow> (AdminDecisionRequest \<times> int \<times> int) list \<Rightarrow> sys \<Rightarrow> sys" where
  "decide_again audit_log_id calls s =
     fold (\<lambda>(request, admin, now) t. snd (admin_decision audit_log_id request admin now t)) calls s"


text \<open>The shop before any refund application was filed.\<close>

definition demo_fresh :: sys where
  "demo_fresh = demo_shop\<lparr>refund_applications := []\<rparr>"

text \<open>The shop after the small request has gone through the eligibility node.\<close>

definition demo_auto :: sys where
  "demo_auto = snd (check_refund_eligibility settings 60 demo_request_small demo_shop)"

text \<open>
  The shop with one pending audit log that names no refund application
  (\<^verbatim>\<open>refund_application_id\<close> is optional in \<^verbatim>\<open>AuditLog\<close>).
\<close>

definition demo_unlinked :: sys where
  "demo_unlinked =
     demo_shop\<lparr>audit_logs :=
       [\<lparr>al_id = 1, al_thread_id = ''thread-c'', al_order_id = None,
         al_refund_application_id = None, al_user_id = 7,
         al_trigger_reason = HighAmountReason 2500 2000, al_risk_level = HIGH,
         al_action = Audit_PENDING, al_admin_id = None, al_admin_comment = None,
         al_context_snapshot =
           \<lparr>cs_question = [],
            cs_refund_data =
              \<lparr>rd_refund_id = 0, rd_order_id = 0, rd_amount = 2500, rd_reason = []\<rparr>\<rparr>,
         al_created_at = 60, al_reviewed_at = None, al_updated_at = 60\<rparr>]\<rparr>"

section \<open>Invariant of the refund table\<close>

text \<open>
  No order has two refund applications that are \<^verbatim>\<open>PENDING\<close> or \<^verbatim>\<open>APPROVED\<close>: the
  order ids of the open applications are pairwise different.
\<close>

definition one_open_refund_per_order :: "sys \<Rightarrow> bool" where
  "one_open_refund_per_order s =
     distinct (map ra_order_id
       (filter (\<lambda>r. ra_status r \<in> set [Refund_PENDING, Refund_APPROVED])
          (refund_applications s)))"

section \<open>What the primitives touch\<close>

lemma delay_fields [simp]:
  "orders (delay j s) = orders s"
  "refund_applications (delay j s) = refund_applications s"
  "audit_logs (delay j s) = audit_logs s"
  "message_cards (delay j s) = message_cards s"
  "jobs (delay j s) = jobs s @ [j]"
  "published (delay j s) = published s"
  by (simp_all add: delay_def)

lemma notify_status_change_fields [simp]:
  "orders (notify_status_change t st d s) = orders s"
  "refund_applications (notify_status_change t st d s) = refund_applications s"
  "audit_logs (notify_status_change t st d s) = audit_logs s"
  "message_cards (notify_status_change t st d s) = message_cards s"
  "jobs (notify_status_change t st d s) = jobs s"
  by (simp_all add: notify_status_change_def Let_def)

lemma notify_status_change_published:
  "published (notify_status_change t st d s) =
     published s @ StatusChange t st d # (if st = ''WAITING_ADMIN'' then [NewAuditTask t d] else [])"
  by (simp add: notify_status_change_def Let_def)

lemma put_refund_fields [simp]:
  "orders (put_refund r s) = orders s"
  "audit_logs (put_refund r s) = audit_logs s"
  "message_cards (put_refund r s) = message_cards s"
  "jobs (put_refund r s) = jobs s"
  "published (put_refund r s) = published s"
  by (simp_all add: put_refund_def)

lemma put_audit_log_fields [simp]:
  "orders (put_audit_log a s) = orders s"
  "refund_applications (put_audit_log a s) = refund_applications s"
  "message_cards (put_audit_log a s) = message_cards s"
  "jobs (put_audit_log a s) = jobs s"
  "published (put_audit_log a s) = published s"
  by (simp_all add: put_audit_log_def)

lemma get_refund_cong [simp]:
  "get_refund i (delay j s) = get_refund i s"
  "get_refund i (put_audit_log a s) = get_refund i s"
  "get_refund i (notify_status_change t st d s) = get_refund i s"
  by (simp_all add: get_refund_def)

lemma get_audit_log_cong [simp]:
  "get_audit_log i (delay j s) = get_audit_log i s"
  "get_audit_log i (put_refund r s) = get_audit_log i s"
  "get_audit_log i (notify_status_change t st d s) = get_audit_log i s"
  "get_audit_log i (s\<lparr>message_cards := m\<rparr>) = get_audit_log i s"
  by (simp_all add: get_audit_log_def)

lemma find_map_replace:
  "find (\<lambda>x. key x = i) xs = Some y \<Longrightarrow> key z = i \<Longrightarrow>
     find (\<lambda>x. key x = i) (map (\<lambda>x. if key x = i then z else x) xs) = Some z"
  by (induction xs) (auto split: if_splits)

lemma find_Some_key: "find (\<lambda>x. key x = i) xs = Some y \<Longrightarrow> key y = i"
  by (induction xs) (auto split: if_splits)

lemma get_audit_log_put:
  "get_audit_log i s = Some a \<Longrightarrow> al_id b = i \<Longrightarrow> get_audit_log i (put_audit_log b s) = Some b"
  unfolding get_audit_log_def put_audit_log_def
  using find_map_replace [of al_id i "audit_logs s" a b] by simp

lemma get_audit_log_id: "get_audit_log i s = Some a \<Longrightarrow> al_id a = i"
  unfolding get_audit_log_def by (rule find_Some_key)

lemma review_refund_audit_logs [simp]:
  "audit_logs (review_refund a e req adm now s) = audit_logs s"
  by (simp add: review_refund_def Let_def split: option.splits)

lemma get_audit_log_review_refund [simp]:
  "get_audit_log i (review_refund a e req adm now s) = get_audit_log i s"
  by (simp add: get_audit_log_def)

lemma admin_decision_not_found:
  "get_audit_log i s = None \<Longrightarrow> admin_decision i req adm now s = (Inl HTTP_404_NOT_FOUND, s)"
  by (simp add: admin_decision_def)

lemma admin_decision_processed:
  "get_audit_log i s = Some a \<Longrightarrow> al_action a \<noteq> Audit_PENDING \<Longrightarrow>
     admin_decision i req adm now s = (Inl HTTP_400_BAD_REQUEST, s)"
  by (simp add: admin_decision_def)

lemma admin_decision_success_iff:
  "(\<exists>resp. fst (admin_decision i req adm now s) = Inr resp) \<longleftrightarrow>
     (\<exists>a. get_audit_log i s = Some a \<and> al_action a = Audit_PENDING)"
  by (auto simp add: admin_decision_def Let_def split: option.splits)

lemma admin_decision_stored:
  assumes "get_audit_log i s = Some a" "al_action a = Audit_PENDING"
  shows "get_audit_log i (snd (admin_decision i req adm now s)) =
     Some (a\<lparr>al_action := (if req_action req = ''APPROVE'' then Audit_APPROVE else Audit_REJECT),
             al_admin_id := Some adm,
             al_admin_comment := req_admin_comment req,
             al_reviewed_at := Some now,
             al_updated_at := now\<rparr>)"
  using assms get_audit_log_id [OF assms(1)]
  by (simp add: admin_decision_def Let_def get_audit_log_put)

lemma admin_decision_failure_frame:
  "fst (admin_decision i req adm now s) = Inl e \<Longrightarrow> snd (admin_decision i req adm now s) = s"
  by (auto simp add: admin_decision_def Let_def split: option.splits if_splits)

lemma decide_again_fixed:
  "(\<And>r a n. snd (admin_decision i r a n s) = s) \<Longrightarrow> decide_again i calls s = s"
  unfolding decide_again_def by (induction calls) auto

section \<open>The concrete shop, evaluated\<close>

lemma demo_pending_eval:
  "demo_pending =
     \<lparr>orders = [demo_order_small, demo_order_large],
      refund_applications = [demo_refund_small, demo_refund_large],
      audit_logs =
        [\<lparr>al_id = 1, al_thread_id = ''thread-b'', al_order_id = Some 2,
          al_refund_application_id = Some 2, al_user_id = 7,
          al_trigger_reason = HighAmountReason 2500 2000, al_risk_level = HIGH,
          al_action = Audit_PENDING, al_admin_id = None, al_admin_comment = None,
          al_context_snapshot =
            \<lparr>cs_question = [],
             cs_refund_data =
               \<lparr>rd_refund_id = 2, rd_order_id = 2, rd_amount = 2500, rd_reason = []\<rparr>\<rparr>,
          al_created_at = 60, al_reviewed_at = None, al_updated_at = 60\<rparr>],
      message_cards = [],
      jobs = [NotifyAdminAudit 1],
      published =
        [StatusChange ''thread-b'' ''WAITING_ADMIN''
           (WaitingData HIGH (HighAmountReason 2500 2000) 1 2500),
         NewAuditTask ''thread-b'' (WaitingData HIGH (HighAmountReason 2500 2000) 1 2500)]\<rparr>"
  by (simp add: demo_pending_def check_refund_eligibility_def demo_request_large_def settings_def
      open_audit_def Let_def fresh_id_def delay_def notify_status_change_def demo_shop_def)

lemma demo_first_decision:
  "admin_decision 1 demo_approve 9 100 demo_pending =
     (Inr \<lparr>resp_success = True, resp_audit_log_id = 1, resp_action = ''APPROVE''\<rparr>,
      demo_decided)"
  by (simp add: demo_decided_def demo_pending_eval admin_decision_def get_audit_log_def
      demo_approve_def Let_def)

lemma demo_decided_eval:
  "demo_decided =
     \<lparr>orders = [demo_order_small, demo_order_large],
      refund_applications =
        [demo_refund_small,
         demo_refund_large\<lparr>ra_status := Refund_APPROVED, ra_admin_note := Some ''ok'',
                            ra_reviewed_by := Some 9, ra_reviewed_at := Some 100,
                            ra_updated_at := 100\<rparr>],
      audit_logs =
        [\<lparr>al_id = 1, al_thread_id = ''thread-b'', al_order_id = Some 2,
          al_refund_application_id = Some 2, al_user_id = 7,
          al_trigger_reason = HighAmountReason 2500 2000, al_risk_level = HIGH,
          al_action = Audit_APPROVE, al_admin_id = Some 9, al_admin_comment = Some ''ok'',
          al_context_snapshot =
            \<lparr>cs_question = [],
             cs_refund_data =
               \<lparr>rd_refund_id = 2, rd_order_id = 2, rd_amount = 2500, rd_reason = []\<rparr>\<rparr>,
          al_created_at = 60, al_reviewed_at = Some 100, al_updated_at = 100\<rparr>],
      message_cards =
        [\<lparr>mc_thread_id = ''thread-b'', mc_message_type = AUDIT_CARD, mc_status = Msg_SENT,
          mc_content = AuditResultCard ''APPROVE'' ApprovedStatusMessage (Some ''ok'') 100,
          mc_sender_type = ''admin'', mc_sender_id = Some 9, mc_receiver_id = Some 7,
          mc_created_at = 100\<rparr>],
      jobs =
        [NotifyAdminAudit 1, ProcessRefundPayment 2 2500 OriginalPaymentMethod,
         SendRefundSms 2 ''138****1234'' (RefundApprovedSms 2500)],
      published =
        [StatusChange ''thread-b'' ''WAITING_ADMIN''
           (WaitingData HIGH (HighAmountReason 2500 2000) 1 2500),
         NewAuditTask ''thread-b'' (WaitingData HIGH (HighAmountReason 2500 2000) 1 2500),
         StatusChange ''thread-b'' ''APPROVE''
           (DecisionData ApprovedStatusMessage (Some ''ok''))]\<rparr>"
  by (simp add: demo_decided_def demo_pending_eval admin_decision_def get_audit_log_def
      demo_approve_def Let_def put_audit_log_def review_refund_def get_refund_def
      demo_refund_small_def demo_refund_large_def delay_def put_refund_def
      notify_status_change_def)

section \<open>The single-decision invariant\<close>

text \<open>
  Claim C1. \<^verbatim>\<open>admin_decision\<close> writes only when the audit log it is called on is
  \<^verbatim>\<open>PENDING\<close>. Once a call has succeeded, the audit log holds that call's verdict,
  administrator and comment, and every later call on the same audit log, with any
  request, administrator and time, is refused and hands the whole state back as it was;
  so does any run of later calls. One decision at most is ever stored for a case.
\<close>

theorem single_decision:
  "(snd (admin_decision i req adm now s) \<noteq> s \<longrightarrow>
      (\<exists>a. get_audit_log i s = Some a \<and> al_action a = Audit_PENDING)) \<and>
   (fst (admin_decision i req adm now s) = Inr resp \<longrightarrow>
      (\<exists>a. get_audit_log i s = Some a \<and> al_action a = Audit_PENDING) \<and>
      (\<exists>b. get_audit_log i (snd (admin_decision i req adm now s)) = Some b \<and>
           al_action b \<in> {Audit_APPROVE, Audit_REJECT} \<and>
           al_admin_id b = Some adm \<and> al_admin_comment b = req_admin_comment req) \<and>
      (\<forall>req2 adm2 now2.
           admin_decision i req2 adm2 now2 (snd (admin_decision i req adm now s)) =
             (Inl HTTP_400_BAD_REQUEST, snd (admin_decision i req adm now s))) \<and>
      (\<forall>calls. decide_again i calls (snd (admin_decision i req adm now s)) =
             snd (admin_decision i req adm now s)))"
proof (intro conjI impI)
  assume "snd (admin_decision i req adm now s) \<noteq> s"
  then obtain resp' where "fst (admin_decision i req adm now s) = Inr resp'"
    using admin_decision_failure_frame [of i req adm now s]
    by (cases "fst (admin_decision i req adm now s)") auto
  then show "\<exists>a. get_audit_log i s = Some a \<and> al_action a = Audit_PENDING"
    using admin_decision_success_iff [of i req adm now s] by blast
next
  assume ok: "fst (admin_decision i req adm now s) = Inr resp"
  then obtain a where a: "get_audit_log i s = Some a" "al_action a = Audit_PENDING"
    using admin_decision_success_iff [of i req adm now s] by blast
  let ?s = "snd (admin_decision i req adm now s)"
  let ?b = "a\<lparr>al_action := (if req_action req = ''APPROVE'' then Audit_APPROVE else Audit_REJECT),
             al_admin_id := Some adm,
             al_admin_comment := req_admin_comment req,
             al_reviewed_at := Some now,
             al_updated_at := now\<rparr>"
  have b: "get_audit_log i ?s = Some ?b"
    using admin_decision_stored [OF a] .
  have nb: "al_action ?b \<noteq> Audit_PENDING" by simp
  show "\<exists>a. get_audit_log i s = Some a \<and> al_action a = Audit_PENDING"
    using a by blast
  show "\<exists>b. get_audit_log i ?s = Some b \<and>
           al_action b \<in> {Audit_APPROVE, Audit_REJECT} \<and>
           al_admin_id b = Some adm \<and> al_admin_comment b = req_admin_comment req"
    using b by simp
  have again: "admin_decision i r2 a2 n2 ?s = (Inl HTTP_400_BAD_REQUEST, ?s)" for r2 a2 n2
    using admin_decision_processed [OF b nb] .
  show "\<forall>req2 adm2 now2. admin_decision i req2 adm2 now2 ?s = (Inl HTTP_400_BAD_REQUEST, ?s)"
    using again by blast
  show "\<forall>calls. decide_again i calls ?s = ?s"
    using decide_again_fixed [of i ?s] again by simp
qed

theorem single_decision_witness:
  "snd (admin_decision 1 demo_approve 9 100 demo_pending) \<noteq> demo_pending \<and>
   fst (admin_decision 1 demo_approve 9 100 demo_pending) =
     Inr \<lparr>resp_success = True, resp_audit_log_id = 1, resp_action = ''APPROVE''\<rparr> \<and>
   (\<exists>a. get_audit_log 1 demo_pending = Some a \<and> al_action a = Audit_PENDING) \<and>
   (\<exists>b. get_audit_log 1 demo_decided = Some b \<and>
        al_action b \<in> {Audit_APPROVE, Audit_REJECT} \<and>
        al_admin_id b = Some 9 \<and> al_admin_comment b = req_admin_comment demo_approve) \<and>
   (\<forall>req2 adm2 now2.
        admin_decision 1 req2 adm2 now2 demo_decided = (Inl HTTP_400_BAD_REQUEST, demo_decided)) \<and>
   (\<forall>calls. decide_again 1 calls demo_decided = demo_decided)"
proof -
  have changed: "snd (admin_decision 1 demo_approve 9 100 demo_pending) \<noteq> demo_pending"
    unfolding demo_first_decision snd_conv
    by (simp add: demo_decided_eval demo_pending_eval)
  have ok: "fst (admin_decision 1 demo_approve 9 100 demo_pending) =
      Inr \<lparr>resp_success = True, resp_audit_log_id = 1, resp_action = ''APPROVE''\<rparr>"
    by (simp add: demo_first_decision)
  show ?thesis
    using changed ok
      single_decision [of 1 demo_approve 9 100 demo_pending
        "\<lparr>resp_success = True, resp_audit_log_id = 1, resp_action = ''APPROVE''\<rparr>"]
    by (simp add: demo_first_decision)
qed

section \<open>Resubmitting a decision\<close>

text \<open>
  Claim C2, as stated: a decide call on a case whose decision is already recorded
  returns success with the recorded decision. It does not: after administrator 9 has
  approved audit log 1, the same request sent again is answered with HTTP 400.
\<close>

theorem resubmission_counterexample:
  "fst (admin_decision 1 demo_approve 9 100 demo_pending) =
     Inr \<lparr>resp_success = True, resp_audit_log_id = 1, resp_action = ''APPROVE''\<rparr> \<and>
   fst (admin_decision 1 demo_approve 9 130 demo_decided) = Inl HTTP_400_BAD_REQUEST"
  unfolding demo_first_decision fst_conv
  by (simp add: demo_decided_eval admin_decision_def get_audit_log_def)

text \<open>
  Claim C2, amended: a decide call on an audit log that already holds a verdict is
  refused with HTTP 400 (\<^verbatim>\<open>This audit has already been processed\<close>), whatever it asks
  for; nothing is written, and the recorded decision stays as it was.
\<close>

theorem resubmission_refused:
  assumes "get_audit_log i s = Some a"
    and "al_action a = Audit_APPROVE \<or> al_action a = Audit_REJECT"
  shows "fst (admin_decision i req adm now s) = Inl HTTP_400_BAD_REQUEST \<and>
         snd (admin_decision i req adm now s) = s \<and>
         get_audit_log i (snd (admin_decision i req adm now s)) = Some a"
proof -
  from assms(2) have "al_action a \<noteq> Audit_PENDING" by auto
  with assms(1) have "admin_decision i req adm now s = (Inl HTTP_400_BAD_REQUEST, s)"
    by (rule admin_decision_processed)
  with assms(1) show ?thesis by simp
qed

theorem resubmission_refused_witness:
  "fst (admin_decision 1 demo_reject 8 130 demo_decided) = Inl HTTP_400_BAD_REQUEST \<and>
   snd (admin_decision 1 demo_reject 8 130 demo_decided) = demo_decided \<and>
   (\<exists>a. get_audit_log 1 (snd (admin_decision 1 demo_reject 8 130 demo_decided)) = Some a \<and>
        al_action a = Audit_APPROVE \<and> al_admin_id a = Some 9)"
proof -
  let ?a = "\<lparr>al_id = 1, al_thread_id = ''thread-b'', al_order_id = Some 2,
          al_refund_application_id = Some 2, al_user_id = 7,
          al_trigger_reason = HighAmountReason 2500 2000, al_risk_level = HIGH,
          al_action = Audit_APPROVE, al_admin_id = Some 9, al_admin_comment = Some ''ok'',
          al_context_snapshot =
            \<lparr>cs_question = [],
             cs_refund_data =
               \<lparr>rd_refund_id = 2, rd_order_id = 2, rd_amount = 2500, rd_reason = []\<rparr>\<rparr>,
          al_created_at = 60, al_reviewed_at = Some 100, al_updated_at = 100\<rparr>"
  have found: "get_audit_log 1 demo_decided = Some ?a"
    by (simp add: demo_decided_eval get_audit_log_def)
  have verdict: "al_action ?a = Audit_APPROVE \<or> al_action ?a = Audit_REJECT"
    by simp
  show ?thesis
    using resubmission_refused [OF found verdict, of demo_reject 8 130] found by auto
qed


section \<open>Risk classification\<close>

lemma check_refund_eligibility_classify:
  "st_refund_data st = Some rd \<Longrightarrow>
   check_refund_eligibility cfg now st s =
     (case classify cfg (rd_amount rd) of
        HIGH \<Rightarrow> open_audit now st rd HIGH
                  (HighAmountReason (rd_amount rd) (HIGH_RISK_REFUND_AMOUNT cfg)) s
      | MEDIUM \<Rightarrow> open_audit now st rd MEDIUM
                  (MediumAmountReason (rd_amount rd) (MEDIUM_RISK_REFUND_AMOUNT cfg)) s
      | _ \<Rightarrow> auto_approve now rd s)"
  by (simp add: check_refund_eligibility_def classify_def)

lemma open_audit_audit_logs:
  "\<exists>a. audit_logs (snd (open_audit now st rd lvl reason s)) = audit_logs s @ [a] \<and>
       al_risk_level a = lvl \<and> al_action a = Audit_PENDING \<and>
       al_refund_application_id a = Some (rd_refund_id rd) \<and> al_thread_id a = st_thread_id st"
  by (simp add: open_audit_def Let_def)

lemma auto_approve_audit_logs [simp]:
  "audit_logs (snd (auto_approve now rd s)) = audit_logs s"
  by (simp add: auto_approve_def Let_def split: option.splits)

text \<open>
  Claim C5. The classifier returns \<^verbatim>\<open>HIGH\<close> from the high threshold on,
  \<^verbatim>\<open>MEDIUM\<close> from the medium threshold up to the high one, and \<^verbatim>\<open>LOW\<close> below
  both; an amount equal to a threshold is in the higher tier. It is a total function
  of the amount and the two thresholds, with these three values only, and it is the
  level \<^verbatim>\<open>check_refund_eligibility\<close> acts on: an audit log with that level is opened
  exactly when the level is not \<^verbatim>\<open>LOW\<close>.
\<close>

theorem risk_classification:
  "(HIGH_RISK_REFUND_AMOUNT cfg \<le> a \<longrightarrow> classify cfg a = HIGH) \<and>
   (MEDIUM_RISK_REFUND_AMOUNT cfg \<le> a \<and> a < HIGH_RISK_REFUND_AMOUNT cfg \<longrightarrow>
      classify cfg a = MEDIUM) \<and>
   (a < MEDIUM_RISK_REFUND_AMOUNT cfg \<and> a < HIGH_RISK_REFUND_AMOUNT cfg \<longrightarrow>
      classify cfg a = LOW) \<and>
   classify cfg (HIGH_RISK_REFUND_AMOUNT cfg) = HIGH \<and>
   classify cfg (MEDIUM_RISK_REFUND_AMOUNT cfg) \<in> {MEDIUM, HIGH} \<and>
   (MEDIUM_RISK_REFUND_AMOUNT cfg < HIGH_RISK_REFUND_AMOUNT cfg \<longrightarrow>
      classify cfg (MEDIUM_RISK_REFUND_AMOUNT cfg) = MEDIUM) \<and>
   classify cfg a \<in> {LOW, MEDIUM, HIGH} \<and>
   (st_refund_data st = Some rd \<and> rd_amount rd = a \<longrightarrow>
      nr_audit_required (fst (check_refund_eligibility cfg now st s)) = (classify cfg a \<noteq> LOW) \<and>
      (classify cfg a = LOW \<longrightarrow>
         audit_logs (snd (check_refund_eligibility cfg now st s)) = audit_logs s) \<and>
      (classify cfg a \<noteq> LOW \<longrightarrow>
         (\<exists>l. audit_logs (snd (check_refund_eligibility cfg now st s)) = audit_logs s @ [l] \<and>
              al_risk_level l = classify cfg a)))"
proof -
  have tiers: "(HIGH_RISK_REFUND_AMOUNT cfg \<le> a \<longrightarrow> classify cfg a = HIGH) \<and>
   (MEDIUM_RISK_REFUND_AMOUNT cfg \<le> a \<and> a < HIGH_RISK_REFUND_AMOUNT cfg \<longrightarrow>
      classify cfg a = MEDIUM) \<and>
   (a < MEDIUM_RISK_REFUND_AMOUNT cfg \<and> a < HIGH_RISK_REFUND_AMOUNT cfg \<longrightarrow>
      classify cfg a = LOW) \<and>
   classify cfg (HIGH_RISK_REFUND_AMOUNT cfg) = HIGH \<and>
   classify cfg (MEDIUM_RISK_REFUND_AMOUNT cfg) \<in> {MEDIUM, HIGH} \<and>
   (MEDIUM_RISK_REFUND_AMOUNT cfg < HIGH_RISK_REFUND_AMOUNT cfg \<longrightarrow>
      classify cfg (MEDIUM_RISK_REFUND_AMOUNT cfg) = MEDIUM) \<and>
   classify cfg a \<in> {LOW, MEDIUM, HIGH}"
    by (simp add: classify_def)
  have node: "nr_audit_required (fst (check_refund_eligibility cfg now st s)) =
        (classify cfg a \<noteq> LOW) \<and>
      (classify cfg a = LOW \<longrightarrow>
         audit_logs (snd (check_refund_eligibility cfg now st s)) = audit_logs s) \<and>
      (classify cfg a \<noteq> LOW \<longrightarrow>
         (\<exists>l. audit_logs (snd (check_refund_eligibility cfg now st s)) = audit_logs s @ [l] \<and>
              al_risk_level l = classify cfg a))"
    if rd: "st_refund_data st = Some rd" "rd_amount rd = a"
  proof (cases "classify cfg a")
    case LOW
    then show ?thesis
      using rd by (simp add: check_refund_eligibility_classify auto_approve_def Let_def
          split: option.splits)
  next
    case MEDIUM
    then show ?thesis
      using rd open_audit_audit_logs [of now st rd MEDIUM _ s]
      by (simp add: check_refund_eligibility_classify) (simp add: open_audit_def Let_def)
  next
    case HIGH
    then show ?thesis
      using rd open_audit_audit_logs [of now st rd HIGH _ s]
      by (simp add: check_refund_eligibility_classify) (simp add: open_audit_def Let_def)
  next
    case CRITICAL
    then show ?thesis using tiers by simp
  qed
  show ?thesis using tiers node by blast
qed

theorem risk_classification_witness:
  "(HIGH_RISK_REFUND_AMOUNT settings \<le> 2500 \<and> classify settings 2500 = HIGH) \<and>
   (MEDIUM_RISK_REFUND_AMOUNT settings \<le> 500 \<and> 500 < HIGH_RISK_REFUND_AMOUNT settings \<and>
      classify settings 500 = MEDIUM) \<and>
   (100 < MEDIUM_RISK_REFUND_AMOUNT settings \<and> 100 < HIGH_RISK_REFUND_AMOUNT settings \<and>
      classify settings 100 = LOW) \<and>
   (MEDIUM_RISK_REFUND_AMOUNT settings < HIGH_RISK_REFUND_AMOUNT settings \<and>
      classify settings (MEDIUM_RISK_REFUND_AMOUNT settings) = MEDIUM) \<and>
   (st_refund_data demo_request_large =
        Some \<lparr>rd_refund_id = 2, rd_order_id = 2, rd_amount = 2500, rd_reason = []\<rparr> \<and>
      nr_audit_required (fst (check_refund_eligibility settings 60 demo_request_large demo_shop)) \<and>
      (\<exists>l. audit_logs (snd (check_refund_eligibility settings 60 demo_request_large demo_shop)) =
             audit_logs demo_shop @ [l] \<and> al_risk_level l = HIGH)) \<and>
   (st_refund_data demo_request_small =
        Some \<lparr>rd_refund_id = 1, rd_order_id = 1, rd_amount = 100, rd_reason = []\<rparr> \<and>
      \<not> nr_audit_required
           (fst (check_refund_eligibility settings 60 demo_request_small demo_shop)) \<and>
      audit_logs (snd (check_refund_eligibility settings 60 demo_request_small demo_shop)) =
        audit_logs demo_shop)"
proof -
  have c1: "HIGH_RISK_REFUND_AMOUNT settings \<le> 2500" by (simp add: settings_def)
  have c2: "MEDIUM_RISK_REFUND_AMOUNT settings \<le> 500 \<and> 500 < HIGH_RISK_REFUND_AMOUNT settings"
    by (simp add: settings_def)
  have c3: "100 < MEDIUM_RISK_REFUND_AMOUNT settings \<and> 100 < HIGH_RISK_REFUND_AMOUNT settings"
    by (simp add: settings_def)
  have c4: "MEDIUM_RISK_REFUND_AMOUNT settings < HIGH_RISK_REFUND_AMOUNT settings"
    by (simp add: settings_def)
  have c5: "st_refund_data demo_request_large =
        Some \<lparr>rd_refund_id = 2, rd_order_id = 2, rd_amount = 2500, rd_reason = []\<rparr> \<and>
      rd_amount \<lparr>rd_refund_id = 2, rd_order_id = 2, rd_amount = 2500, rd_reason = []\<rparr> = 2500"
    by (simp add: demo_request_large_def)
  have c6: "st_refund_data demo_request_small =
        Some \<lparr>rd_refund_id = 1, rd_order_id = 1, rd_amount = 100, rd_reason = []\<rparr> \<and>
      rd_amount \<lparr>rd_refund_id = 1, rd_order_id = 1, rd_amount = 100, rd_reason = []\<rparr> = 100"
    by (simp add: demo_request_small_def)
  show ?thesis
    using c1 c2 c3 c4 c5 c6
      risk_classification [of settings 2500 demo_request_large
        "\<lparr>rd_refund_id = 2, rd_order_id = 2, rd_amount = 2500, rd_reason = []\<rparr>" 60 demo_shop]
      risk_classification [of settings 500 demo_request_large
        "\<lparr>rd_refund_id = 2, rd_order_id = 2, rd_amount = 2500, rd_reason = []\<rparr>" 60 demo_shop]
      risk_classification [of settings 100 demo_request_small
        "\<lparr>rd_refund_id = 1, rd_order_id = 1, rd_amount = 100, rd_reason = []\<rparr>" 60 demo_shop]
    by auto
qed

lemma find_None_set: "find P xs = None \<longleftrightarrow> (\<forall>x\<in>set xs. \<not> P x)"
  by (induction xs) auto

lemma find_Some_set: "find P xs = Some x \<Longrightarrow> x \<in> set xs \<and> P x"
  by (induction xs) (auto split: if_splits)

lemma check_eligibility_existing:
  assumes "r \<in> set (refund_applications s)" "ra_order_id r = o_id order"
    "ra_status r = Refund_PENDING \<or> ra_status r = Refund_APPROVED"
  shows "fst (check_eligibility order now s) = False"
proof -
  have "check_existing_refund (o_id order) s \<noteq> None"
    unfolding check_existing_refund_def find_None_set using assms by auto
  then show ?thesis
    by (auto simp add: check_eligibility_def split: option.splits)
qed

lemma check_eligibility_True:
  "fst (check_eligibility order now s) \<Longrightarrow> check_existing_refund (o_id order) s = None"
  by (auto simp add: check_eligibility_def split: option.splits if_splits prod.splits bool.splits)

lemma create_refund_application_cases:
  "create_refund_application order_id user_id detail cat now commit_ok s = (res, s') \<Longrightarrow>
     s' = s \<and> fst res = False \<or>
     (\<exists>order r. find (\<lambda>row. o_id row = order_id \<and> o_user_id row = user_id) (orders s) = Some order \<and>
        fst (check_eligibility order now s) \<and> commit_ok \<and>
        res = (True, ApplicationSubmitted (ra_id r), Some r) \<and>
        ra_order_id r = order_id \<and> ra_user_id r = user_id \<and> ra_status r = Refund_PENDING \<and>
        ra_refund_amount r = o_total_amount order \<and>
        s' = s\<lparr>refund_applications := refund_applications s @ [r]\<rparr>)"
  by (auto simp add: create_refund_application_def Let_def
      split: option.splits prod.splits bool.splits if_splits)

lemma demo_fresh_create:
  "create_refund_application 1 7 [] (Some OTHER) 100 True demo_fresh =
     ((True, ApplicationSubmitted 1,
       Some (demo_refund_small\<lparr>ra_created_at := 100, ra_updated_at := 100\<rparr>)),
      demo_fresh\<lparr>refund_applications :=
        [demo_refund_small\<lparr>ra_created_at := 100, ra_updated_at := 100\<rparr>]\<rparr>)"
  by (simp add: create_refund_application_def demo_fresh_def demo_shop_def demo_order_small_def
      demo_order_large_def check_eligibility_def ALLOWED_ORDER_STATUSES_def
      check_existing_refund_def check_time_limit_def REFUND_DEADLINE_DAYS_def
      check_category_def NON_REFUNDABLE_CATEGORIES_def fresh_id_def demo_refund_small_def Let_def)

section \<open>Creating a refund application\<close>

text \<open>
  Claim C9. When no order has both the given id and the calling user as its owner,
  \<^verbatim>\<open>create_refund_application\<close> returns the failure
  \<^verbatim>\<open>order not found or no access\<close> and the state it was given, so nothing is stored;
  and whenever it succeeds, an order with that id owned by the caller exists. A caller
  cannot open a refund application on another user's order.
\<close>

theorem refund_creation_ownership:
  "(\<not> (\<exists>row \<in> set (orders s). o_id row = order_id \<and> o_user_id row = user_id) \<longrightarrow>
      create_refund_application order_id user_id detail cat now commit_ok s =
        ((False, OrderNotFoundOrNoAccess, None), s)) \<and>
   (fst (fst (create_refund_application order_id user_id detail cat now commit_ok s)) \<longrightarrow>
      (\<exists>row \<in> set (orders s). o_id row = order_id \<and> o_user_id row = user_id))"
proof (intro conjI impI)
  assume "\<not> (\<exists>row \<in> set (orders s). o_id row = order_id \<and> o_user_id row = user_id)"
  then have "find (\<lambda>row. o_id row = order_id \<and> o_user_id row = user_id) (orders s) = None"
    unfolding find_None_set by blast
  then show "create_refund_application order_id user_id detail cat now commit_ok s =
        ((False, OrderNotFoundOrNoAccess, None), s)"
    by (simp add: create_refund_application_def)
next
  assume ok: "fst (fst (create_refund_application order_id user_id detail cat now commit_ok s))"
  obtain res s' where
    eq: "create_refund_application order_id user_id detail cat now commit_ok s = (res, s')"
    by (cases "create_refund_application order_id user_id detail cat now commit_ok s")
  with ok have "fst res" by simp
  with create_refund_application_cases [OF eq] obtain order where
    "find (\<lambda>row. o_id row = order_id \<and> o_user_id row = user_id) (orders s) = Some order"
    by auto
  then show "\<exists>row \<in> set (orders s). o_id row = order_id \<and> o_user_id row = user_id"
    using find_Some_set by fastforce
qed

theorem refund_creation_ownership_witness:
  "\<not> (\<exists>row \<in> set (orders demo_shop). o_id row = 2 \<and> o_user_id row = 8) \<and>
   create_refund_application 2 8 [] None 100 True demo_shop =
     ((False, OrderNotFoundOrNoAccess, None), demo_shop) \<and>
   fst (fst (create_refund_application 1 7 [] (Some OTHER) 100 True demo_fresh)) \<and>
   (\<exists>row \<in> set (orders demo_fresh). o_id row = 1 \<and> o_user_id row = 7)"
proof -
  have stranger: "\<not> (\<exists>row \<in> set (orders demo_shop). o_id row = 2 \<and> o_user_id row = 8)"
    by (simp add: demo_shop_def demo_order_small_def demo_order_large_def)
  have created: "fst (fst (create_refund_application 1 7 [] (Some OTHER) 100 True demo_fresh))"
    by (simp add: demo_fresh_create)
  show ?thesis
    using stranger created
      refund_creation_ownership [of demo_shop 2 8 "[]" None 100 True]
      refund_creation_ownership [of demo_fresh 1 7 "[]" "Some OTHER" 100 True]
    by blast
qed

text \<open>
  Claim C10. While an order has a refund application that is \<^verbatim>\<open>PENDING\<close> or
  \<^verbatim>\<open>APPROVED\<close>, the eligibility check answers no for it and
  \<^verbatim>\<open>create_refund_application\<close> fails and stores nothing; and a state in which no
  order has two open applications is again such a state after any call of
  \<^verbatim>\<open>create_refund_application\<close>.
\<close>

theorem one_open_refund:
  "(r \<in> set (refund_applications s) \<and> ra_order_id r = o_id order \<and>
      (ra_status r = Refund_PENDING \<or> ra_status r = Refund_APPROVED) \<longrightarrow>
        fst (check_eligibility order now s) = False) \<and>
   (r \<in> set (refund_applications s) \<and> ra_order_id r = order_id \<and>
      (ra_status r = Refund_PENDING \<or> ra_status r = Refund_APPROVED) \<longrightarrow>
        fst (fst (create_refund_application order_id user_id detail cat now commit_ok s)) = False \<and>
        snd (create_refund_application order_id user_id detail cat now commit_ok s) = s) \<and>
   (one_open_refund_per_order s \<longrightarrow>
      one_open_refund_per_order
        (snd (create_refund_application order_id user_id detail cat now commit_ok s)))"
proof (intro conjI impI)
  assume "r \<in> set (refund_applications s) \<and> ra_order_id r = o_id order \<and>
      (ra_status r = Refund_PENDING \<or> ra_status r = Refund_APPROVED)"
  then show "fst (check_eligibility order now s) = False"
    using check_eligibility_existing by blast
next
  assume r: "r \<in> set (refund_applications s) \<and> ra_order_id r = order_id \<and>
      (ra_status r = Refund_PENDING \<or> ra_status r = Refund_APPROVED)"
  obtain res s' where
    eq: "create_refund_application order_id user_id detail cat now commit_ok s = (res, s')"
    by (cases "create_refund_application order_id user_id detail cat now commit_ok s")
  have "s' = s \<and> fst res = False"
  proof (rule ccontr)
    assume "\<not> (s' = s \<and> fst res = False)"
    with create_refund_application_cases [OF eq] obtain order where
      f: "find (\<lambda>row. o_id row = order_id \<and> o_user_id row = user_id) (orders s) = Some order"
      and e: "fst (check_eligibility order now s)"
      by auto
    from f have "o_id order = order_id" using find_Some_set by fastforce
    with r e check_eligibility_existing [of r s order now] show False by auto
  qed
  with eq show "fst (fst (create_refund_application order_id user_id detail cat now commit_ok s)) = False"
    by simp
  from \<open>s' = s \<and> fst res = False\<close> eq
  show "snd (create_refund_application order_id user_id detail cat now commit_ok s) = s"
    by simp
next
  assume inv: "one_open_refund_per_order s"
  obtain res s' where
    eq: "create_refund_application order_id user_id detail cat now commit_ok s = (res, s')"
    by (cases "create_refund_application order_id user_id detail cat now commit_ok s")
  from create_refund_application_cases [OF eq]
  have "one_open_refund_per_order s'"
  proof (elim disjE exE conjE)
    assume "s' = s"
    with inv show ?thesis by simp
  next
    fix order a
    assume f: "find (\<lambda>row. o_id row = order_id \<and> o_user_id row = user_id) (orders s) = Some order"
      and e: "fst (check_eligibility order now s)"
      and a: "ra_order_id a = order_id" "ra_status a = Refund_PENDING"
      and s': "s' = s\<lparr>refund_applications := refund_applications s @ [a]\<rparr>"
    from f have oid: "o_id order = order_id" using find_Some_set by fastforce
    from check_eligibility_True [OF e] oid
    have "check_existing_refund order_id s = None" by simp
    then have fresh: "\<forall>x\<in>set (refund_applications s).
        \<not> (ra_order_id x = order_id \<and> ra_status x \<in> set [Refund_PENDING, Refund_APPROVED])"
      unfolding check_existing_refund_def find_None_set .
    then have "order_id \<notin> ra_order_id `
        {x \<in> set (refund_applications s). ra_status x \<in> set [Refund_PENDING, Refund_APPROVED]}"
      by auto
    with inv a show ?thesis
      unfolding one_open_refund_per_order_def s' by simp
  qed
  with eq show "one_open_refund_per_order
        (snd (create_refund_application order_id user_id detail cat now commit_ok s))"
    by simp
qed

theorem one_open_refund_witness:
  "demo_refund_small \<in> set (refund_applications demo_shop) \<and>
   ra_order_id demo_refund_small = o_id demo_order_small \<and>
   ra_status demo_refund_small = Refund_PENDING \<and>
   fst (check_eligibility demo_order_small 100 demo_shop) = False \<and>
   fst (fst (create_refund_application 1 7 [] None 100 True demo_shop)) = False \<and>
   snd (create_refund_application 1 7 [] None 100 True demo_shop) = demo_shop \<and>
   one_open_refund_per_order demo_fresh \<and>
   one_open_refund_per_order
     (snd (create_refund_application 1 7 [] (Some OTHER) 100 True demo_fresh)) \<and>
   snd (create_refund_application 1 7 [] (Some OTHER) 100 True demo_fresh) \<noteq> demo_fresh"
proof -
  have there: "demo_refund_small \<in> set (refund_applications demo_shop) \<and>
      ra_order_id demo_refund_small = o_id demo_order_small \<and>
      ra_order_id demo_refund_small = 1 \<and>
      ra_status demo_refund_small = Refund_PENDING"
    by (simp add: demo_shop_def demo_refund_small_def demo_order_small_def)
  have inv: "one_open_refund_per_order demo_fresh"
    by (simp add: one_open_refund_per_order_def demo_fresh_def demo_shop_def)
  have grown: "snd (create_refund_application 1 7 [] (Some OTHER) 100 True demo_fresh) \<noteq> demo_fresh"
    unfolding demo_fresh_create snd_conv by (simp add: demo_fresh_def demo_shop_def)
  show ?thesis
    using there inv grown
      one_open_refund [of demo_refund_small demo_shop demo_order_small 100 1 7 "[]" None True]
      one_open_refund [of demo_refund_small demo_fresh demo_order_small 100 1 7 "[]" "Some OTHER" True]
    by blast
qed

section \<open>What a decision does\<close>

lemma get_refund_put:
  "get_refund i s = Some r \<Longrightarrow> ra_id q = i \<Longrightarrow> get_refund i (put_refund q s) = Some q"
  unfolding get_refund_def put_refund_def
  using find_map_replace [of ra_id i "refund_applications s" r q] by simp

lemma get_refund_id: "get_refund i s = Some r \<Longrightarrow> ra_id r = i"
  unfolding get_refund_def by (rule find_Some_key)

lemma review_refund_unlinked:
  "al_refund_application_id a = None \<Longrightarrow> review_refund a e req adm now s = s"
  by (simp add: review_refund_def)

lemma review_refund_approve:
  assumes "al_refund_application_id a = Some rid" "rid \<noteq> 0" "get_refund rid s = Some r"
  shows "review_refund a Audit_APPROVE req adm now s =
     put_refund (r\<lparr>ra_status := Refund_APPROVED,
                    ra_admin_note := req_admin_comment req,
                    ra_reviewed_by := Some adm,
                    ra_reviewed_at := Some now,
                    ra_updated_at := now\<rparr>)
       (delay (SendRefundSms rid ''138****1234'' (RefundApprovedSms (ra_refund_amount r)))
          (delay (ProcessRefundPayment rid (ra_refund_amount r) OriginalPaymentMethod) s))"
  using assms get_refund_id [OF assms(3)] by (simp add: review_refund_def Let_def)

lemma review_refund_reject:
  assumes "al_refund_application_id a = Some rid" "rid \<noteq> 0" "get_refund rid s = Some r"
  shows "review_refund a Audit_REJECT req adm now s =
     put_refund (r\<lparr>ra_status := Refund_REJECTED,
                    ra_admin_note := req_admin_comment req,
                    ra_reviewed_by := Some adm,
                    ra_reviewed_at := Some now,
                    ra_updated_at := now\<rparr>) s"
  using assms by (simp add: review_refund_def Let_def)

lemma admin_decision_pending:
  assumes "get_audit_log i s = Some a" "al_action a = Audit_PENDING"
  shows "admin_decision i req adm now s =
     (let e = (if req_action req = ''APPROVE'' then Audit_APPROVE else Audit_REJECT);
          m = (if e = Audit_APPROVE then ApprovedStatusMessage
               else RejectedStatusMessage (req_admin_comment req));
          s2 = review_refund a e req adm now
                 (put_audit_log (a\<lparr>al_action := e, al_admin_id := Some adm,
                                    al_admin_comment := req_admin_comment req,
                                    al_reviewed_at := Some now, al_updated_at := now\<rparr>) s)
      in (Inr \<lparr>resp_success = True, resp_audit_log_id = i, resp_action = req_action req\<rparr>,
          notify_status_change (al_thread_id a) (req_action req)
            (DecisionData m (req_admin_comment req))
            (s2\<lparr>message_cards := message_cards s2 @
               [\<lparr>mc_thread_id = al_thread_id a, mc_message_type = AUDIT_CARD,
                 mc_status = Msg_SENT,
                 mc_content = AuditResultCard (req_action req) m (req_admin_comment req) now,
                 mc_sender_type = ''admin'', mc_sender_id = Some adm,
                 mc_receiver_id = Some (al_user_id a), mc_created_at = now\<rparr>]\<rparr>)))"
  using assms by (simp add: admin_decision_def Let_def)

lemma demo_pending_audit_log:
  "get_audit_log 1 demo_pending =
     Some \<lparr>al_id = 1, al_thread_id = ''thread-b'', al_order_id = Some 2,
          al_refund_application_id = Some 2, al_user_id = 7,
          al_trigger_reason = HighAmountReason 2500 2000, al_risk_level = HIGH,
          al_action = Audit_PENDING, al_admin_id = None, al_admin_comment = None,
          al_context_snapshot =
            \<lparr>cs_question = [],
             cs_refund_data =
               \<lparr>rd_refund_id = 2, rd_order_id = 2, rd_amount = 2500, rd_reason = []\<rparr>\<rparr>,
          al_created_at = 60, al_reviewed_at = None, al_updated_at = 60\<rparr>"
  by (simp add: demo_pending_eval get_audit_log_def)

lemma demo_pending_refund: "get_refund 2 demo_pending = Some demo_refund_large"
  by (simp add: demo_pending_eval get_refund_def demo_refund_small_def demo_refund_large_def)

text \<open>
  Claim C3, as stated: for every pending case, an approval enqueues a settlement job
  and an SMS job. The audit log of \<open>demo_unlinked\<close> is pending and names no refund
  application; approving it is accepted and recorded, and no job is enqueued, since the
  refund step of \<^verbatim>\<open>admin_decision\<close> is guarded by
  \<^verbatim>\<open>if audit_log.refund_application_id\<close> and \<^verbatim>\<open>if refund\<close>.
\<close>

theorem decision_counterexample:
  "map al_action (audit_logs demo_unlinked) = [Audit_PENDING] \<and>
   fst (admin_decision 1 demo_approve 9 100 demo_unlinked) =
     Inr \<lparr>resp_success = True, resp_audit_log_id = 1, resp_action = ''APPROVE''\<rparr> \<and>
   map al_action (audit_logs (snd (admin_decision 1 demo_approve 9 100 demo_unlinked))) =
     [Audit_APPROVE] \<and>
   jobs (snd (admin_decision 1 demo_approve 9 100 demo_unlinked)) = []"
  by (simp add: demo_unlinked_def demo_shop_def admin_decision_def get_audit_log_def
      demo_approve_def Let_def put_audit_log_def review_refund_def)

text \<open>
  Claim C3, amended: for every pending audit log that names an existing refund
  application, a decision \<^verbatim>\<open>APPROVE\<close> records the approval on the audit log, sets the
  application to \<^verbatim>\<open>APPROVED\<close> and enqueues the payment job and the SMS job of that
  application, in this order; a decision \<^verbatim>\<open>REJECT\<close> records the rejection, sets the
  application to \<^verbatim>\<open>REJECTED\<close> with the reviewer's comment as its note, enqueues no
  job, and the message card and the pushed event carry the comment. In both outcomes
  one \<^verbatim>\<open>status_change\<close> event with the request's action is published to the thread
  of the audit log.
\<close>

theorem decision_postconditions:
  assumes "get_audit_log i s = Some a" and "al_action a = Audit_PENDING"
    and "al_refund_application_id a = Some rid" and "rid \<noteq> 0"
    and "get_refund rid s = Some r"
  shows
   "(req_action req = ''APPROVE'' \<longrightarrow>
       fst (admin_decision i req adm now s) =
         Inr \<lparr>resp_success = True, resp_audit_log_id = i, resp_action = ''APPROVE''\<rparr> \<and>
       map_option al_action (get_audit_log i (snd (admin_decision i req adm now s))) =
         Some Audit_APPROVE \<and>
       map_option ra_status (get_refund rid (snd (admin_decision i req adm now s))) =
         Some Refund_APPROVED \<and>
       jobs (snd (admin_decision i req adm now s)) =
         jobs s @ [ProcessRefundPayment rid (ra_refund_amount r) OriginalPaymentMethod,
                   SendRefundSms rid ''138****1234'' (RefundApprovedSms (ra_refund_amount r))] \<and>
       published (snd (admin_decision i req adm now s)) =
         published s @ [StatusChange (al_thread_id a) ''APPROVE''
                          (DecisionData ApprovedStatusMessage (req_admin_comment req))]) \<and>
    (req_action req = ''REJECT'' \<longrightarrow>
       fst (admin_decision i req adm now s) =
         Inr \<lparr>resp_success = True, resp_audit_log_id = i, resp_action = ''REJECT''\<rparr> \<and>
       map_option al_action (get_audit_log i (snd (admin_decision i req adm now s))) =
         Some Audit_REJECT \<and>
       map_option ra_status (get_refund rid (snd (admin_decision i req adm now s))) =
         Some Refund_REJECTED \<and>
       map_option ra_admin_note (get_refund rid (snd (admin_decision i req adm now s))) =
         Some (req_admin_comment req) \<and>
       jobs (snd (admin_decision i req adm now s)) = jobs s \<and>
       published (snd (admin_decision i req adm now s)) =
         published s @ [StatusChange (al_thread_id a) ''REJECT''
                          (DecisionData (RejectedStatusMessage (req_admin_comment req))
                             (req_admin_comment req))] \<and>
       message_cards (snd (admin_decision i req adm now s)) =
         message_cards s @
           [\<lparr>mc_thread_id = al_thread_id a, mc_message_type = AUDIT_CARD, mc_status = Msg_SENT,
             mc_content = AuditResultCard ''REJECT''
                            (RejectedStatusMessage (req_admin_comment req))
                            (req_admin_comment req) now,
             mc_sender_type = ''admin'', mc_sender_id = Some adm,
             mc_receiver_id = Some (al_user_id a), mc_created_at = now\<rparr>])"
proof (intro conjI impI)
  assume ap: "req_action req = ''APPROVE''"
  let ?s = "snd (admin_decision i req adm now s)"
  let ?s1 = "put_audit_log (a\<lparr>al_action := Audit_APPROVE, al_admin_id := Some adm,
                                    al_admin_comment := req_admin_comment req,
                                    al_reviewed_at := Some now, al_updated_at := now\<rparr>) s"
  have r1: "get_refund rid ?s1 = Some r" using assms(5) by simp
  note rr = review_refund_approve [OF assms(3,4) r1, of req adm now]
  note ad = admin_decision_pending [OF assms(1,2), of req adm now]
  show "fst (admin_decision i req adm now s) =
         Inr \<lparr>resp_success = True, resp_audit_log_id = i, resp_action = ''APPROVE''\<rparr>"
    using ap by (simp add: ad Let_def)
  show "map_option al_action (get_audit_log i ?s) = Some Audit_APPROVE"
    using ap by (simp add: admin_decision_stored [OF assms(1,2)])
  show "map_option ra_status (get_refund rid ?s) = Some Refund_APPROVED"
    using ap get_refund_id [OF assms(5)]
    by (simp add: ad Let_def rr get_refund_def put_refund_def find_map_replace [OF assms(5) [unfolded get_refund_def]])
  show "jobs ?s = jobs s @ [ProcessRefundPayment rid (ra_refund_amount r) OriginalPaymentMethod,
                   SendRefundSms rid ''138****1234'' (RefundApprovedSms (ra_refund_amount r))]"
    using ap by (simp add: ad Let_def rr)
  show "published ?s = published s @ [StatusChange (al_thread_id a) ''APPROVE''
                          (DecisionData ApprovedStatusMessage (req_admin_comment req))]"
    using ap by (simp add: ad Let_def rr notify_status_change_published)
next
  assume rj: "req_action req = ''REJECT''"
  let ?s = "snd (admin_decision i req adm now s)"
  let ?s1 = "put_audit_log (a\<lparr>al_action := Audit_REJECT, al_admin_id := Some adm,
                                    al_admin_comment := req_admin_comment req,
                                    al_reviewed_at := Some now, al_updated_at := now\<rparr>) s"
  have r1: "get_refund rid ?s1 = Some r" using assms(5) by simp
  note rr = review_refund_reject [OF assms(3,4) r1, of req adm now]
  note ad = admin_decision_pending [OF assms(1,2), of req adm now]
  show "fst (admin_decision i req adm now s) =
         Inr \<lparr>resp_success = True, resp_audit_log_id = i, resp_action = ''REJECT''\<rparr>"
    using rj by (simp add: ad Let_def)
  show "map_option al_action (get_audit_log i ?s) = Some Audit_REJECT"
    using rj by (simp add: admin_decision_stored [OF assms(1,2)])
  show "map_option ra_status (get_refund rid ?s) = Some Refund_REJECTED"
    using rj get_refund_id [OF assms(5)]
    by (simp add: ad Let_def rr get_refund_def put_refund_def find_map_replace [OF assms(5) [unfolded get_refund_def]])
  show "map_option ra_admin_note (get_refund rid ?s) = Some (req_admin_comment req)"
    using rj get_refund_id [OF assms(5)]
    by (simp add: ad Let_def rr get_refund_def put_refund_def find_map_replace [OF assms(5) [unfolded get_refund_def]])
  show "jobs ?s = jobs s"
    using rj by (simp add: ad Let_def rr)
  show "published ?s = published s @ [StatusChange (al_thread_id a) ''REJECT''
                          (DecisionData (RejectedStatusMessage (req_admin_comment req))
                             (req_admin_comment req))]"
    using rj by (simp add: ad Let_def rr notify_status_change_published)
  show "message_cards ?s = message_cards s @
           [\<lparr>mc_thread_id = al_thread_id a, mc_message_type = AUDIT_CARD, mc_status = Msg_SENT,
             mc_content = AuditResultCard ''REJECT''
                            (RejectedStatusMessage (req_admin_comment req))
                            (req_admin_comment req) now,
             mc_sender_type = ''admin'', mc_sender_id = Some adm,
             mc_receiver_id = Some (al_user_id a), mc_created_at = now\<rparr>]"
    using rj by (simp add: ad Let_def rr)
qed

theorem decision_postconditions_witness:
  "(\<exists>a. get_audit_log 1 demo_pending = Some a \<and> al_action a = Audit_PENDING \<and>
        al_refund_application_id a = Some 2) \<and>
   get_refund 2 demo_pending = Some demo_refund_large \<and>
   req_action demo_approve = ''APPROVE'' \<and>
   map_option ra_status (get_refund 2 (snd (admin_decision 1 demo_approve 9 100 demo_pending))) =
     Some Refund_APPROVED \<and>
   jobs (snd (admin_decision 1 demo_approve 9 100 demo_pending)) =
     jobs demo_pending @ [ProcessRefundPayment 2 2500 OriginalPaymentMethod,
                          SendRefundSms 2 ''138****1234'' (RefundApprovedSms 2500)] \<and>
   req_action demo_reject = ''REJECT'' \<and>
   map_option ra_status (get_refund 2 (snd (admin_decision 1 demo_reject 9 100 demo_pending))) =
     Some Refund_REJECTED \<and>
   jobs (snd (admin_decision 1 demo_reject 9 100 demo_pending)) = jobs demo_pending \<and>
   published (snd (admin_decision 1 demo_reject 9 100 demo_pending)) =
     published demo_pending @
       [StatusChange ''thread-b'' ''REJECT''
          (DecisionData (RejectedStatusMessage (Some ''quality unverified''))
             (Some ''quality unverified''))]"
proof -
  let ?a = "\<lparr>al_id = 1, al_thread_id = ''thread-b'', al_order_id = Some 2,
          al_refund_application_id = Some 2, al_user_id = 7,
          al_trigger_reason = HighAmountReason 2500 2000, al_risk_level = HIGH,
          al_action = Audit_PENDING, al_admin_id = None, al_admin_comment = None,
          al_context_snapshot =
            \<lparr>cs_question = [],
             cs_refund_data =
               \<lparr>rd_refund_id = 2, rd_order_id = 2, rd_amount = 2500, rd_reason = []\<rparr>\<rparr>,
          al_created_at = 60, al_reviewed_at = None, al_updated_at = 60\<rparr>"
  have h2: "al_action ?a = Audit_PENDING" by simp
  have h3: "al_refund_application_id ?a = Some 2" by simp
  have h4: "(2::int) \<noteq> 0" by simp
  have ap: "req_action demo_approve = ''APPROVE''" by (simp add: demo_approve_def)
  have rj: "req_action demo_reject = ''REJECT'' \<and>
      req_admin_comment demo_reject = Some ''quality unverified''"
    by (simp add: demo_reject_def)
  have amount: "ra_refund_amount demo_refund_large = 2500" by (simp add: demo_refund_large_def)
  note t = decision_postconditions [OF demo_pending_audit_log h2 h3 h4 demo_pending_refund]
  show ?thesis
    using demo_pending_audit_log demo_pending_refund ap rj amount
      t [of demo_approve 9 100] t [of demo_reject 9 100]
    by simp
qed

section \<open>Automatic approval\<close>

lemma auto_approve_fields [simp]:
  "orders (snd (auto_approve now rd s)) = orders s"
  "message_cards (snd (auto_approve now rd s)) = message_cards s"
  "published (snd (auto_approve now rd s)) = published s"
  by (simp_all add: auto_approve_def Let_def split: option.splits)

text \<open>
  Claim C4, as stated: a refund below the medium threshold ends with one settlement job
  enqueued and one \<^verbatim>\<open>APPROVED\<close> notification published to the thread. For the
  request of 100 against the thresholds 500 and 2000 the application is set to
  \<^verbatim>\<open>APPROVED\<close>, while the job queue and the published messages stay empty; and with
  a high threshold of 50 under a medium threshold of 500 the same request is sent to
  audit, although it is below the medium threshold.
\<close>

theorem auto_approval_counterexample:
  "st_refund_data demo_request_small =
     Some \<lparr>rd_refund_id = 1, rd_order_id = 1, rd_amount = 100, rd_reason = []\<rparr> \<and>
   MEDIUM_RISK_REFUND_AMOUNT settings = 500 \<and>
   map ra_status (refund_applications demo_auto) = [Refund_APPROVED, Refund_PENDING] \<and>
   jobs demo_auto = [] \<and>
   published demo_auto = [] \<and>
   nr_audit_required
     (fst (check_refund_eligibility
             \<lparr>HIGH_RISK_REFUND_AMOUNT = 50, MEDIUM_RISK_REFUND_AMOUNT = 500\<rparr>
             60 demo_request_small demo_shop))"
  by (simp add: demo_auto_def check_refund_eligibility_def demo_request_small_def settings_def
      auto_approve_def Let_def get_refund_def demo_shop_def demo_refund_small_def
      demo_refund_large_def put_refund_def open_audit_def)

text \<open>
  Claim C4, amended: for every refund whose amount is below the medium and the high
  threshold, \<^verbatim>\<open>check_refund_eligibility\<close> sets the refund application, when it
  exists, to \<^verbatim>\<open>APPROVED\<close> with the review time, opens no audit log, publishes no
  message to any thread, and returns \<^verbatim>\<open>audit_required = False\<close> with the
  auto-approval answer; the approval reaches the customer as that answer.
\<close>

theorem auto_approval:
  assumes "st_refund_data st = Some rd"
    and "rd_amount rd < MEDIUM_RISK_REFUND_AMOUNT cfg"
    and "rd_amount rd < HIGH_RISK_REFUND_AMOUNT cfg"
  shows "fst (check_refund_eligibility cfg now st s) =
           \<lparr>nr_audit_required = False, nr_audit_log_id = None,
            nr_answer = AutoApprovedAnswer (rd_refund_id rd) (rd_amount rd)\<rparr> \<and>
         audit_logs (snd (check_refund_eligibility cfg now st s)) = audit_logs s \<and>
         published (snd (check_refund_eligibility cfg now st s)) = published s \<and>
         message_cards (snd (check_refund_eligibility cfg now st s)) = message_cards s \<and>
         orders (snd (check_refund_eligibility cfg now st s)) = orders s \<and>
         (get_refund (rd_refund_id rd) s = None \<longrightarrow>
            snd (check_refund_eligibility cfg now st s) = s) \<and>
         (\<forall>r. get_refund (rd_refund_id rd) s = Some r \<longrightarrow>
            get_refund (rd_refund_id rd) (snd (check_refund_eligibility cfg now st s)) =
              Some (r\<lparr>ra_status := Refund_APPROVED, ra_reviewed_at := Some now,
                      ra_updated_at := now\<rparr>))"
proof -
  have eq: "check_refund_eligibility cfg now st s = auto_approve now rd s"
    using assms by (simp add: check_refund_eligibility_def)
  have stored: "get_refund (rd_refund_id rd) (snd (auto_approve now rd s)) =
      Some (r\<lparr>ra_status := Refund_APPROVED, ra_reviewed_at := Some now, ra_updated_at := now\<rparr>)"
    if "get_refund (rd_refund_id rd) s = Some r" for r
    using that get_refund_id [OF that]
    by (simp add: auto_approve_def Let_def get_refund_put)
  have none: "snd (auto_approve now rd s) = s" if "get_refund (rd_refund_id rd) s = None"
    using that by (simp add: auto_approve_def)
  have answer: "fst (auto_approve now rd s) =
      \<lparr>nr_audit_required = False, nr_audit_log_id = None,
       nr_answer = AutoApprovedAnswer (rd_refund_id rd) (rd_amount rd)\<rparr>"
    by (simp add: auto_approve_def Let_def)
  show ?thesis
    unfolding eq using stored none answer by simp
qed

theorem auto_approval_witness:
  "st_refund_data demo_request_small =
     Some \<lparr>rd_refund_id = 1, rd_order_id = 1, rd_amount = 100, rd_reason = []\<rparr> \<and>
   (100::real) < MEDIUM_RISK_REFUND_AMOUNT settings \<and>
   (100::real) < HIGH_RISK_REFUND_AMOUNT settings \<and>
   get_refund 1 demo_shop = Some demo_refund_small \<and>
   fst (check_refund_eligibility settings 60 demo_request_small demo_shop) =
     \<lparr>nr_audit_required = False, nr_audit_log_id = None, nr_answer = AutoApprovedAnswer 1 100\<rparr> \<and>
   audit_logs demo_auto = [] \<and>
   published demo_auto = [] \<and>
   get_refund 1 demo_auto =
     Some (demo_refund_small\<lparr>ra_status := Refund_APPROVED, ra_reviewed_at := Some 60,
                              ra_updated_at := 60\<rparr>)"
proof -
  let ?rd = "\<lparr>rd_refund_id = 1, rd_order_id = 1, rd_amount = 100, rd_reason = []\<rparr>"
  have h1: "st_refund_data demo_request_small = Some ?rd"
    by (simp add: demo_request_small_def)
  have h2: "rd_amount ?rd < MEDIUM_RISK_REFUND_AMOUNT settings" by (simp add: settings_def)
  have h3: "rd_amount ?rd < HIGH_RISK_REFUND_AMOUNT settings" by (simp add: settings_def)
  have found: "get_refund 1 demo_shop = Some demo_refund_small"
    by (simp add: get_refund_def demo_shop_def demo_refund_small_def)
  have empty: "audit_logs demo_shop = [] \<and> published demo_shop = []"
    by (simp add: demo_shop_def)
  show ?thesis
    using h1 h2 h3 found empty auto_approval [OF h1 h2 h3, of 60 demo_shop]
    by (simp add: demo_auto_def)
qed

section \<open>Enqueueing jobs\<close>

lemma review_refund_jobs:
  "jobs (review_refund a e req adm now s) = jobs s \<or>
   (\<exists>r. e = Audit_APPROVE \<and> al_refund_application_id a = Some (ra_id r) \<and>
        get_refund (ra_id r) s = Some r \<and>
        jobs (review_refund a e req adm now s) =
          jobs s @ [ProcessRefundPayment (ra_id r) (ra_refund_amount r) OriginalPaymentMethod,
                    SendRefundSms (ra_id r) ''138****1234''
                      (RefundApprovedSms (ra_refund_amount r))])"
proof (cases "al_refund_application_id a")
  case None
  then show ?thesis by (simp add: review_refund_def)
next
  case (Some rid)
  show ?thesis
  proof (cases "get_refund rid s")
    case None
    with Some show ?thesis by (simp add: review_refund_def)
  next
    case (Some r)
    note r = this
    have id: "ra_id r = rid" using get_refund_id [OF r] .
    show ?thesis
    proof (cases "rid \<noteq> 0 \<and> e = Audit_APPROVE")
      case True
      with \<open>al_refund_application_id a = Some rid\<close> r id show ?thesis
        by (intro disjI2 exI [of _ r]) (simp add: review_refund_def Let_def)
    next
      case False
      with \<open>al_refund_application_id a = Some rid\<close> r show ?thesis
        by (auto simp add: review_refund_def Let_def)
    qed
  qed
qed

text \<open>
  Claim C6, as stated: enqueueing a job whose key is already queued is a no-op, so
  enqueueing twice equals enqueueing once. A job carries its task and arguments and no
  key, and \<^verbatim>\<open>delay\<close> is called without looking at the queue: the same payment job
  sent twice is in the queue twice.
\<close>

theorem enqueue_counterexample:
  "jobs (delay (ProcessRefundPayment 2 2500 OriginalPaymentMethod) demo_shop) =
     [ProcessRefundPayment 2 2500 OriginalPaymentMethod] \<and>
   jobs (delay (ProcessRefundPayment 2 2500 OriginalPaymentMethod)
          (delay (ProcessRefundPayment 2 2500 OriginalPaymentMethod) demo_shop)) =
     [ProcessRefundPayment 2 2500 OriginalPaymentMethod,
      ProcessRefundPayment 2 2500 OriginalPaymentMethod]"
  by (simp add: demo_shop_def)

text \<open>
  Claim C6, amended: every \<^verbatim>\<open>delay\<close> appends one job, whatever the queue holds. A
  job is determined by its task and arguments, which for the payment and SMS jobs are
  the id and the amount of the refund application, never random. Duplicates are kept
  out by the decision path alone: a refused decision enqueues nothing, an accepted one
  enqueues nothing or the payment job and the SMS job of one refund application, and
  after an accepted decision every later decision on that audit log enqueues nothing.
\<close>

theorem enqueue_appends:
  "jobs (delay j s) = jobs s @ [j] \<and>
   (fst (admin_decision i req adm now s) = Inl e \<longrightarrow>
      jobs (snd (admin_decision i req adm now s)) = jobs s) \<and>
   (fst (admin_decision i req adm now s) = Inr resp \<longrightarrow>
      (jobs (snd (admin_decision i req adm now s)) = jobs s \<or>
       (\<exists>r \<in> set (refund_applications s).
          req_action req = ''APPROVE'' \<and>
          jobs (snd (admin_decision i req adm now s)) =
            jobs s @ [ProcessRefundPayment (ra_id r) (ra_refund_amount r) OriginalPaymentMethod,
                      SendRefundSms (ra_id r) ''138****1234''
                        (RefundApprovedSms (ra_refund_amount r))])) \<and>
      (\<forall>req2 adm2 now2.
          jobs (snd (admin_decision i req2 adm2 now2 (snd (admin_decision i req adm now s)))) =
            jobs (snd (admin_decision i req adm now s))))"
proof (intro conjI impI)
  show "jobs (delay j s) = jobs s @ [j]" by simp
next
  assume "fst (admin_decision i req adm now s) = Inl e"
  then show "jobs (snd (admin_decision i req adm now s)) = jobs s"
    using admin_decision_failure_frame by simp
next
  assume ok: "fst (admin_decision i req adm now s) = Inr resp"
  then obtain a where a: "get_audit_log i s = Some a" "al_action a = Audit_PENDING"
    using admin_decision_success_iff [of i req adm now s] by blast
  let ?e = "if req_action req = ''APPROVE'' then Audit_APPROVE else Audit_REJECT"
  let ?s1 = "put_audit_log (a\<lparr>al_action := ?e, al_admin_id := Some adm,
                                    al_admin_comment := req_admin_comment req,
                                    al_reviewed_at := Some now, al_updated_at := now\<rparr>) s"
  have j: "jobs (snd (admin_decision i req adm now s)) = jobs (review_refund a ?e req adm now ?s1)"
    by (simp add: admin_decision_pending [OF a] Let_def)
  from review_refund_jobs [of a ?e req adm now ?s1]
  show "jobs (snd (admin_decision i req adm now s)) = jobs s \<or>
       (\<exists>r \<in> set (refund_applications s).
          req_action req = ''APPROVE'' \<and>
          jobs (snd (admin_decision i req adm now s)) =
            jobs s @ [ProcessRefundPayment (ra_id r) (ra_refund_amount r) OriginalPaymentMethod,
                      SendRefundSms (ra_id r) ''138****1234''
                        (RefundApprovedSms (ra_refund_amount r))])"
  proof
    assume "jobs (review_refund a ?e req adm now ?s1) = jobs ?s1"
    then show ?thesis using j by simp
  next
    assume "\<exists>r. ?e = Audit_APPROVE \<and> al_refund_application_id a = Some (ra_id r) \<and>
        get_refund (ra_id r) ?s1 = Some r \<and>
        jobs (review_refund a ?e req adm now ?s1) =
          jobs ?s1 @ [ProcessRefundPayment (ra_id r) (ra_refund_amount r) OriginalPaymentMethod,
                    SendRefundSms (ra_id r) ''138****1234''
                      (RefundApprovedSms (ra_refund_amount r))]"
    then obtain r where r: "?e = Audit_APPROVE" "get_refund (ra_id r) ?s1 = Some r"
      "jobs (review_refund a ?e req adm now ?s1) =
          jobs ?s1 @ [ProcessRefundPayment (ra_id r) (ra_refund_amount r) OriginalPaymentMethod,
                    SendRefundSms (ra_id r) ''138****1234''
                      (RefundApprovedSms (ra_refund_amount r))]"
      by blast
    from r(2) have "r \<in> set (refund_applications s)"
      using find_Some_set [of "\<lambda>q. ra_id q = ra_id r" "refund_applications s" r]
      by (simp add: get_refund_def)
    moreover from r(1) have "req_action req = ''APPROVE''" by (simp split: if_splits)
    ultimately show ?thesis using r(3) j by auto
  qed
  have b: "get_audit_log i (snd (admin_decision i req adm now s)) =
      Some (a\<lparr>al_action := ?e, al_admin_id := Some adm,
              al_admin_comment := req_admin_comment req,
              al_reviewed_at := Some now, al_updated_at := now\<rparr>)"
    using admin_decision_stored [OF a] .
  have "admin_decision i r2 a2 n2 (snd (admin_decision i req adm now s)) =
      (Inl HTTP_400_BAD_REQUEST, snd (admin_decision i req adm now s))" for r2 a2 n2
    by (rule admin_decision_processed [OF b]) simp
  then show "\<forall>req2 adm2 now2.
          jobs (snd (admin_decision i req2 adm2 now2 (snd (admin_decision i req adm now s)))) =
            jobs (snd (admin_decision i req adm now s))"
    by simp
qed

theorem enqueue_appends_witness:
  "fst (admin_decision 1 demo_approve 9 130 demo_decided) = Inl HTTP_400_BAD_REQUEST \<and>
   jobs (snd (admin_decision 1 demo_approve 9 130 demo_decided)) = jobs demo_decided \<and>
   fst (admin_decision 1 demo_approve 9 100 demo_pending) =
     Inr \<lparr>resp_success = True, resp_audit_log_id = 1, resp_action = ''APPROVE''\<rparr> \<and>
   jobs demo_decided =
     jobs demo_pending @ [ProcessRefundPayment 2 2500 OriginalPaymentMethod,
                          SendRefundSms 2 ''138****1234'' (RefundApprovedSms 2500)] \<and>
   (\<forall>req2 adm2 now2.
      jobs (snd (admin_decision 1 req2 adm2 now2 demo_decided)) = jobs demo_decided)"
proof -
  have refused: "fst (admin_decision 1 demo_approve 9 130 demo_decided) = Inl HTTP_400_BAD_REQUEST"
    by (simp add: demo_decided_eval admin_decision_def get_audit_log_def)
  have ok: "fst (admin_decision 1 demo_approve 9 100 demo_pending) =
      Inr \<lparr>resp_success = True, resp_audit_log_id = 1, resp_action = ''APPROVE''\<rparr>"
    by (simp add: demo_first_decision)
  have queue: "jobs demo_decided =
     jobs demo_pending @ [ProcessRefundPayment 2 2500 OriginalPaymentMethod,
                          SendRefundSms 2 ''138****1234'' (RefundApprovedSms 2500)]"
    by (simp add: demo_decided_eval demo_pending_eval)
  have later: "snd (admin_decision 1 demo_approve 9 100 demo_pending) = demo_decided"
    by (simp add: demo_first_decision)
  show ?thesis
    using refused ok queue
      enqueue_appends [of "NotifyAdminAudit 1" demo_decided 1 demo_approve 9 130
        HTTP_400_BAD_REQUEST]
      enqueue_appends [of "NotifyAdminAudit 1" demo_pending 1 demo_approve 9 100 _
        "\<lparr>resp_success = True, resp_audit_log_id = 1, resp_action = ''APPROVE''\<rparr>"]
    unfolding later by blast
qed

section \<open>What the workers write\<close>

lemma find_map_other:
  "key z = j \<Longrightarrow> j \<noteq> i \<Longrightarrow>
     find (\<lambda>x. key x = i) (map (\<lambda>x. if key x = j then z else x) xs) = find (\<lambda>x. key x = i) xs"
  by (induction xs) auto

lemma get_refund_put_other:
  "ra_id q \<noteq> k \<Longrightarrow> get_refund k (put_refund q s) = get_refund k s"
  unfolding get_refund_def put_refund_def
  using find_map_other [of ra_id q "ra_id q" k "refund_applications s"] by simp

lemma retry_tables:
  "orders (snd (retry m n j exc s)) = orders s"
  "refund_applications (snd (retry m n j exc s)) = refund_applications s"
  "audit_logs (snd (retry m n j exc s)) = audit_logs s"
  by (simp_all add: retry_def)

lemma process_refund_payment_missing:
  "get_refund rid s = None \<Longrightarrow>
     process_refund_payment n rid amount m now s =
       (if n < 3 then (Inl (Retry (RefundNotFound rid)),
                       delay (ProcessRefundPayment rid amount m) s)
        else (Inl (MaxRetriesExceeded (RefundNotFound rid)), s))"
  by (simp add: process_refund_payment_def retry_def)

lemma process_refund_payment_found:
  "get_refund rid s = Some r \<Longrightarrow>
     process_refund_payment n rid amount m now s =
       (Inr \<lparr>pr_refund_id = rid, pr_amount = amount, pr_completed_at = now\<rparr>,
        put_refund (r\<lparr>ra_status := Refund_COMPLETED, ra_updated_at := now\<rparr>) s)"
  by (simp add: process_refund_payment_def)

lemma run_job_audit_logs: "audit_logs (run_job n now j s) = audit_logs s"
  by (cases j)
     (auto simp add: process_refund_payment_def send_refund_sms_def notify_admin_audit_def
        retry_def split: option.splits)

lemma run_job_orders: "orders (run_job n now j s) = orders s"
  by (cases j)
     (auto simp add: process_refund_payment_def send_refund_sms_def notify_admin_audit_def
        retry_def split: option.splits)

text \<open>
  Claim C7, as stated: running a settlement job never changes the recorded state of
  the case, an approved case stays approved. The refund application approved by
  administrator 9 is \<^verbatim>\<open>APPROVED\<close>; after its payment job has run it is
  \<^verbatim>\<open>COMPLETED\<close> (\<^verbatim>\<open>refund_tasks.py\<close>, line 101).
\<close>

theorem settlement_counterexample:
  "map ra_status (refund_applications demo_decided) = [Refund_PENDING, Refund_APPROVED] \<and>
   map ra_status
     (refund_applications
        (run_job 0 200 (ProcessRefundPayment 2 2500 OriginalPaymentMethod) demo_decided)) =
     [Refund_PENDING, Refund_COMPLETED]"
  by (simp add: demo_decided_eval process_refund_payment_def get_refund_def put_refund_def
      demo_refund_small_def demo_refund_large_def)

text \<open>
  Claim C7, amended: no job, whether it succeeds, is retried or is given up, changes
  an audit log or an order, so the recorded decision of a case stays as it is. The SMS
  job changes nothing at all and the administrators' notification changes no refund
  application. A payment job whose refund application is missing fails and changes no
  refund application; a payment job that finds it sets that one application to
  \<^verbatim>\<open>COMPLETED\<close> and leaves every other application as it was.
\<close>

theorem side_effect_frame:
  "audit_logs (run_job n now j s) = audit_logs s \<and>
   orders (run_job n now j s) = orders s \<and>
   run_job n now (SendRefundSms rid phone msg) s = s \<and>
   refund_applications (run_job n now (NotifyAdminAudit i) s) = refund_applications s \<and>
   (get_refund rid s = None \<longrightarrow>
      fst (process_refund_payment n rid amount m now s) \<in>
        {Inl (Retry (RefundNotFound rid)), Inl (MaxRetriesExceeded (RefundNotFound rid))} \<and>
      refund_applications (run_job n now (ProcessRefundPayment rid amount m) s) =
        refund_applications s) \<and>
   (\<forall>r. get_refund rid s = Some r \<longrightarrow>
      get_refund rid (run_job n now (ProcessRefundPayment rid amount m) s) =
        Some (r\<lparr>ra_status := Refund_COMPLETED, ra_updated_at := now\<rparr>)) \<and>
   (\<forall>k. k \<noteq> rid \<longrightarrow>
      get_refund k (run_job n now (ProcessRefundPayment rid amount m) s) = get_refund k s)"
proof (intro conjI impI allI)
  show "audit_logs (run_job n now j s) = audit_logs s" by (rule run_job_audit_logs)
  show "orders (run_job n now j s) = orders s" by (rule run_job_orders)
  show "run_job n now (SendRefundSms rid phone msg) s = s" by (simp add: send_refund_sms_def)
  show "refund_applications (run_job n now (NotifyAdminAudit i) s) = refund_applications s"
    by (simp add: notify_admin_audit_def retry_def split: option.splits)
next
  assume "get_refund rid s = None"
  then show "fst (process_refund_payment n rid amount m now s) \<in>
        {Inl (Retry (RefundNotFound rid)), Inl (MaxRetriesExceeded (RefundNotFound rid))}"
    by (simp add: process_refund_payment_missing)
next
  assume "get_refund rid s = None"
  then show "refund_applications (run_job n now (ProcessRefundPayment rid amount m) s) =
        refund_applications s"
    by (simp add: process_refund_payment_missing)
next
  fix r assume r: "get_refund rid s = Some r"
  then show "get_refund rid (run_job n now (ProcessRefundPayment rid amount m) s) =
        Some (r\<lparr>ra_status := Refund_COMPLETED, ra_updated_at := now\<rparr>)"
    using get_refund_id [OF r] by (simp add: process_refund_payment_found get_refund_put)
next
  fix k assume k: "k \<noteq> rid"
  show "get_refund k (run_job n now (ProcessRefundPayment rid amount m) s) = get_refund k s"
  proof (cases "get_refund rid s")
    case None
    then show ?thesis by (simp add: process_refund_payment_missing get_refund_def)
  next
    case (Some r)
    then show ?thesis
      using k get_refund_id [OF Some]
      by (simp add: process_refund_payment_found get_refund_put_other)
  qed
qed

theorem side_effect_frame_witness:
  "get_refund 5 demo_decided = None \<and>
   fst (process_refund_payment 0 5 2500 OriginalPaymentMethod 200 demo_decided) \<in>
     {Inl (Retry (RefundNotFound 5)), Inl (MaxRetriesExceeded (RefundNotFound 5))} \<and>
   refund_applications
     (run_job 0 200 (ProcessRefundPayment 5 2500 OriginalPaymentMethod) demo_decided) =
     refund_applications demo_decided \<and>
   (\<exists>r. get_refund 2 demo_decided = Some r \<and> ra_status r = Refund_APPROVED \<and>
        get_refund 2
          (run_job 0 200 (ProcessRefundPayment 2 2500 OriginalPaymentMethod) demo_decided) =
          Some (r\<lparr>ra_status := Refund_COMPLETED, ra_updated_at := 200\<rparr>)) \<and>
   (1::int) \<noteq> 2 \<and>
   get_refund 1
     (run_job 0 200 (ProcessRefundPayment 2 2500 OriginalPaymentMethod) demo_decided) =
     get_refund 1 demo_decided \<and>
   audit_logs (run_job 0 200 (ProcessRefundPayment 2 2500 OriginalPaymentMethod) demo_decided) =
     audit_logs demo_decided"
proof -
  have missing: "get_refund 5 demo_decided = None"
    by (simp add: demo_decided_eval get_refund_def demo_refund_small_def demo_refund_large_def)
  have found: "get_refund 2 demo_decided =
      Some (demo_refund_large\<lparr>ra_status := Refund_APPROVED, ra_admin_note := Some ''ok'',
                            ra_reviewed_by := Some 9, ra_reviewed_at := Some 100,
                            ra_updated_at := 100\<rparr>)"
    by (simp add: demo_decided_eval get_refund_def demo_refund_small_def demo_refund_large_def)
  show ?thesis
    using missing found
      side_effect_frame [of 0 200 "ProcessRefundPayment 2 2500 OriginalPaymentMethod"
        demo_decided 5 "''''" "RefundApprovedSms 0" 1 2500 OriginalPaymentMethod]
      side_effect_frame [of 0 200 "ProcessRefundPayment 2 2500 OriginalPaymentMethod"
        demo_decided 2 "''''" "RefundApprovedSms 0" 1 2500 OriginalPaymentMethod]
    by auto
qed

section \<open>Rendering the status of a thread\<close>

lemma latest_by_None: "latest_by f xs = None \<longleftrightarrow> xs = []"
  by (induction xs) (auto split: option.splits)

lemma latest_by_Some:
  "latest_by f xs = Some x \<Longrightarrow> x \<in> set xs \<and> (\<forall>y\<in>set xs. f y \<le> f x)"
proof (induction xs arbitrary: x)
  case Nil
  then show ?case by simp
next
  case (Cons z zs)
  show ?case
  proof (cases "latest_by f zs")
    case None
    then have "zs = []" by (simp add: latest_by_None)
    with Cons.prems show ?thesis by simp
  next
    case (Some y)
    with Cons.IH [of y] have y: "y \<in> set zs" "\<forall>w\<in>set zs. f w \<le> f y" by auto
    show ?thesis
    proof (cases "f z < f y")
      case True
      with Some Cons.prems have "x = y" by simp
      with y True show ?thesis by auto
    next
      case False
      with Some Cons.prems have "x = z" by simp
      with y False show ?thesis by fastforce
    qed
  qed
qed

text \<open>
  Claim C8, as stated: an approved case, an auto-approved low-risk case included,
  renders \<^verbatim>\<open>APPROVED\<close>. The small request was approved automatically on thread
  \<^verbatim>\<open>thread-a\<close>; no audit log was written for it, and the status of the thread is
  \<^verbatim>\<open>PROCESSING\<close>.
\<close>

theorem status_counterexample:
  "map ra_status (refund_applications demo_auto) = [Refund_APPROVED, Refund_PENDING] \<and>
   st_thread_id demo_request_small = ''thread-a'' \<and>
   rs_status (fst (get_thread_status ''thread-a'' 7 demo_auto)) = ''PROCESSING''"
  by (simp add: demo_auto_def check_refund_eligibility_def demo_request_small_def settings_def
      auto_approve_def Let_def get_refund_def demo_shop_def demo_refund_small_def
      demo_refund_large_def put_refund_def get_thread_status_def)

text \<open>
  Claim C8, amended: \<^verbatim>\<open>get_thread_status\<close> writes nothing and answers one of
  \<^verbatim>\<open>PROCESSING\<close>, \<^verbatim>\<open>WAITING_ADMIN\<close>, \<^verbatim>\<open>APPROVED\<close>, \<^verbatim>\<open>REJECTED\<close>. When
  the caller has no audit log on the thread the answer is \<^verbatim>\<open>PROCESSING\<close>;
  otherwise it is read from an audit log of the caller on the thread with the latest
  creation time: \<^verbatim>\<open>WAITING_ADMIN\<close> when pending, \<^verbatim>\<open>APPROVED\<close> when approved,
  \<^verbatim>\<open>REJECTED\<close> when rejected, \<^verbatim>\<open>PROCESSING\<close> when escalated. An automatic
  approval of a low-risk refund writes no audit log and leaves the answer for every
  thread as it was.
\<close>

theorem thread_status_rendering:
  "snd (get_thread_status t u s) = s \<and>
   rs_status (fst (get_thread_status t u s)) \<in>
     {''PROCESSING'', ''WAITING_ADMIN'', ''APPROVED'', ''REJECTED''} \<and>
   ((\<forall>a \<in> set (audit_logs s). \<not> (al_thread_id a = t \<and> al_user_id a = u)) \<longrightarrow>
      rs_status (fst (get_thread_status t u s)) = ''PROCESSING'') \<and>
   ((\<exists>a \<in> set (audit_logs s). al_thread_id a = t \<and> al_user_id a = u) \<longrightarrow>
      (\<exists>a \<in> set (audit_logs s).
         al_thread_id a = t \<and> al_user_id a = u \<and>
         (\<forall>b \<in> set (audit_logs s).
            al_thread_id b = t \<and> al_user_id b = u \<longrightarrow> al_created_at b \<le> al_created_at a) \<and>
         rs_status (fst (get_thread_status t u s)) =
           (case al_action a of
              Audit_PENDING \<Rightarrow> ''WAITING_ADMIN''
            | Audit_APPROVE \<Rightarrow> ''APPROVED''
            | Audit_REJECT \<Rightarrow> ''REJECTED''
            | Audit_ESCALATE \<Rightarrow> ''PROCESSING''))) \<and>
   (st_refund_data st = Some rd \<and> classify cfg (rd_amount rd) = LOW \<longrightarrow>
      fst (get_thread_status t u (snd (check_refund_eligibility cfg now st s))) =
        fst (get_thread_status t u s))"
proof (intro conjI impI)
  let ?rows = "filter (\<lambda>a. al_thread_id a = t \<and> al_user_id a = u) (audit_logs s)"
  show "snd (get_thread_status t u s) = s"
    by (simp add: get_thread_status_def Let_def)
  show "rs_status (fst (get_thread_status t u s)) \<in>
     {''PROCESSING'', ''WAITING_ADMIN'', ''APPROVED'', ''REJECTED''}"
    by (simp add: get_thread_status_def Let_def split: option.splits)
  {
    assume "\<forall>a \<in> set (audit_logs s). \<not> (al_thread_id a = t \<and> al_user_id a = u)"
    then have "?rows = []" by (simp add: filter_empty_conv)
    then show "rs_status (fst (get_thread_status t u s)) = ''PROCESSING''"
      by (simp add: get_thread_status_def Let_def)
  }
  {
    assume "\<exists>a \<in> set (audit_logs s). al_thread_id a = t \<and> al_user_id a = u"
    then have "?rows \<noteq> []" by (simp add: filter_empty_conv)
    then obtain a where a: "latest_by al_created_at ?rows = Some a"
      using latest_by_None [of al_created_at ?rows] by (cases "latest_by al_created_at ?rows") auto
    from latest_by_Some [OF a]
    have mem: "a \<in> set (audit_logs s)" "al_thread_id a = t" "al_user_id a = u"
      and top: "\<forall>b \<in> set (audit_logs s).
            al_thread_id b = t \<and> al_user_id b = u \<longrightarrow> al_created_at b \<le> al_created_at a"
      by auto
    have "rs_status (fst (get_thread_status t u s)) =
           (case al_action a of
              Audit_PENDING \<Rightarrow> ''WAITING_ADMIN''
            | Audit_APPROVE \<Rightarrow> ''APPROVED''
            | Audit_REJECT \<Rightarrow> ''REJECTED''
            | Audit_ESCALATE \<Rightarrow> ''PROCESSING'')"
      using a by (cases "al_action a") (simp_all add: get_thread_status_def Let_def)
    with mem top show "\<exists>a \<in> set (audit_logs s).
         al_thread_id a = t \<and> al_user_id a = u \<and>
         (\<forall>b \<in> set (audit_logs s).
            al_thread_id b = t \<and> al_user_id b = u \<longrightarrow> al_created_at b \<le> al_created_at a) \<and>
         rs_status (fst (get_thread_status t u s)) =
           (case al_action a of
              Audit_PENDING \<Rightarrow> ''WAITING_ADMIN''
            | Audit_APPROVE \<Rightarrow> ''APPROVED''
            | Audit_REJECT \<Rightarrow> ''REJECTED''
            | Audit_ESCALATE \<Rightarrow> ''PROCESSING'')"
      by blast
  }
  {
    assume low: "st_refund_data st = Some rd \<and> classify cfg (rd_amount rd) = LOW"
    then have eq: "check_refund_eligibility cfg now st s = auto_approve now rd s"
      by (simp add: check_refund_eligibility_classify)
    show "fst (get_thread_status t u (snd (check_refund_eligibility cfg now st s))) =
        fst (get_thread_status t u s)"
      unfolding eq by (simp add: get_thread_status_def Let_def)
  }
qed

theorem thread_status_rendering_witness:
  "audit_logs demo_shop = [] \<and>
   rs_status (fst (get_thread_status ''thread-a'' 7 demo_shop)) = ''PROCESSING'' \<and>
   (\<exists>a \<in> set (audit_logs demo_pending). al_thread_id a = ''thread-b'' \<and> al_user_id a = 7) \<and>
   rs_status (fst (get_thread_status ''thread-b'' 7 demo_pending)) = ''WAITING_ADMIN'' \<and>
   rs_status (fst (get_thread_status ''thread-b'' 7 demo_decided)) = ''APPROVED'' \<and>
   st_refund_data demo_request_small =
     Some \<lparr>rd_refund_id = 1, rd_order_id = 1, rd_amount = 100, rd_reason = []\<rparr> \<and>
   classify settings 100 = LOW \<and>
   fst (get_thread_status ''thread-a'' 7 demo_auto) =
     fst (get_thread_status ''thread-a'' 7 demo_shop)"
proof -
  let ?rd = "\<lparr>rd_refund_id = 1, rd_order_id = 1, rd_amount = 100, rd_reason = []\<rparr>"
  have none: "\<forall>a \<in> set (audit_logs demo_shop).
      \<not> (al_thread_id a = ''thread-a'' \<and> al_user_id a = 7)"
    by (simp add: demo_shop_def)
  have p: "audit_logs demo_pending =
      [\<lparr>al_id = 1, al_thread_id = ''thread-b'', al_order_id = Some 2,
          al_refund_application_id = Some 2, al_user_id = 7,
          al_trigger_reason = HighAmountReason 2500 2000, al_risk_level = HIGH,
          al_action = Audit_PENDING, al_admin_id = None, al_admin_comment = None,
          al_context_snapshot =
            \<lparr>cs_question = [],
             cs_refund_data =
               \<lparr>rd_refund_id = 2, rd_order_id = 2, rd_amount = 2500, rd_reason = []\<rparr>\<rparr>,
          al_created_at = 60, al_reviewed_at = None, al_updated_at = 60\<rparr>]"
    by (simp add: demo_pending_eval)
  have d: "map al_action (audit_logs demo_decided) = [Audit_APPROVE] \<and>
      map al_thread_id (audit_logs demo_decided) = [''thread-b''] \<and>
      map al_user_id (audit_logs demo_decided) = [7]"
    by (simp add: demo_decided_eval)
  have low: "st_refund_data demo_request_small = Some ?rd \<and> classify settings (rd_amount ?rd) = LOW"
    by (simp add: demo_request_small_def classify_def settings_def)
  have w1: "rs_status (fst (get_thread_status ''thread-a'' 7 demo_shop)) = ''PROCESSING''"
    using none thread_status_rendering [of "''thread-a''" 7 demo_shop] by blast
  have w2: "rs_status (fst (get_thread_status ''thread-b'' 7 demo_pending)) = ''WAITING_ADMIN''"
    using thread_status_rendering [of "''thread-b''" 7 demo_pending] by (auto simp add: p)
  have w3: "rs_status (fst (get_thread_status ''thread-b'' 7 demo_decided)) = ''APPROVED''"
    using d thread_status_rendering [of "''thread-b''" 7 demo_decided] by fastforce
  have w4: "fst (get_thread_status ''thread-a'' 7 demo_auto) =
      fst (get_thread_status ''thread-a'' 7 demo_shop)"
    using low thread_status_rendering [of "''thread-a''" 7 demo_shop demo_request_small ?rd
        settings 60]
    unfolding demo_auto_def by blast
  have empty: "audit_logs demo_shop = []" by (simp add: demo_shop_def)
  show ?thesis using empty p w1 w2 w3 w4 low by simp
qed

end
